theory Spec2Isabelle
  imports Main "HOL-Library.Word"
begin

section \<open>Session records\<close>

text \<open>
  A session record is a JavaScript object. Its reserved fields are typed as the data
  model has them: \<open>id\<close> and \<open>uid\<close> are strings, \<open>createdOn\<close> and \<open>lastActive\<close> are
  millisecond timestamps, \<open>anonymous\<close> is a boolean. A field that is absent (reading it
  gives \<open>undefined\<close>) is \<open>None\<close>. All other fields are application data, kept as a map.
\<close>

record sdata =
  d_id :: "string option"
  d_uid :: "string option"
  d_createdOn :: "int option"
  d_lastActive :: "int option"
  d_anonymous :: "bool option"
  d_other :: "string \<rightharpoonup> string"

text \<open>JavaScript truthiness of a field: \<open>undefined\<close>, \<open>""\<close>, \<open>0\<close> and \<open>false\<close> are falsy.\<close>

definition truthy_str :: "string option \<Rightarrow> bool" where
  "truthy_str v = (case v of None \<Rightarrow> False | Some s \<Rightarrow> s \<noteq> [])"

definition truthy_num :: "int option \<Rightarrow> bool" where
  "truthy_num v = (case v of None \<Rightarrow> False | Some n \<Rightarrow> n \<noteq> 0)"

definition truthy_bool :: "bool option \<Rightarrow> bool" where
  "truthy_bool v = (case v of None \<Rightarrow> False | Some b \<Rightarrow> b)"

text \<open>
  \<open>a < b\<close> where \<open>a\<close> may be \<open>undefined\<close>: \<open>undefined\<close> converts to \<open>NaN\<close>, and every
  comparison with \<open>NaN\<close> is false.
\<close>

definition lt_js :: "int option \<Rightarrow> int \<Rightarrow> bool" where
  "lt_js a b = (case a of None \<Rightarrow> False | Some t \<Rightarrow> t < b)"

text \<open>
  The property key of \<open>index[v]\<close>: a string is its own key, \<open>undefined\<close> is converted to
  the key \<open>"undefined"\<close>. The indexes are plain objects used as maps from ids; an id is a
  token of the store or of \<open>createUniqueIdentifier\<close>, never the name of a property that
  every object inherits (\<open>constructor\<close>, \<open>toString\<close>, ...), so a key that was not
  stored reads as \<open>undefined\<close>.
\<close>

definition key_of :: "string option \<Rightarrow> string" where
  "key_of v = (case v of None \<Rightarrow> ''undefined'' | Some s \<Rightarrow> s)"

text \<open>The object literal \<open>{ anonymous: true }\<close>.\<close>

definition anon :: sdata where
  "anon = \<lparr>d_id = None, d_uid = None, d_createdOn = None, d_lastActive = None,
           d_anonymous = Some True, d_other = Map.empty\<rparr>"

section \<open>The persistent store\<close>

text \<open>The queries this module sends to the store.\<close>

datatype query =
    QId "string option"          \<comment> \<open>\<open>{id: v}\<close>\<close>
  | QLastActiveLt int            \<comment> \<open>\<open>{lastActive: {$lt: n}}\<close>\<close>
  | QLastActiveExists bool       \<comment> \<open>\<open>{lastActive: {$exists: b}}\<close>\<close>
  | QOr "query list"             \<comment> \<open>\<open>{$or: [...]}\<close>\<close>

datatype store_call = Find query | First query | Insert sdata | Remove query

text \<open>
  The store answers a call before the caller goes on: a callback runs when its call is
  made, so the calls of one operation and their callbacks take place in the order in
  which the source issues them.

  The store keeps its records, the trace of the calls it has received, the outcomes
  scheduled for the calls to come (\<open>Some e\<close>: the next call reports error \<open>e\<close>; an
  exhausted schedule reports no error), and the ids it assigns to records inserted
  without one.
\<close>

record db =
  records :: "sdata list"
  calls :: "store_call list"
  faults :: "string option list"
  idSupply :: "nat \<Rightarrow> string"
  idCount :: nat

text \<open>
  Modelled from the spec: the store's query language (module \<open>./db\<close>, not part of the
  sources). A query is a field-equality/comparison mapping supporting equality, \<open>$lt\<close>,
  \<open>$exists\<close> and \<open>$or\<close> composition; \<open>$lt\<close> selects only records that have the field.
\<close>

fun matches :: "query \<Rightarrow> sdata \<Rightarrow> bool" where
  "matches (QId v) r = (d_id r = v)"
| "matches (QLastActiveLt n) r = (case d_lastActive r of None \<Rightarrow> False | Some t \<Rightarrow> t < n)"
| "matches (QLastActiveExists b) r = ((d_lastActive r \<noteq> None) = b)"
| "matches (QOr qs) r = (\<exists>q \<in> set qs. matches q r)"

definition next_fault :: "db \<Rightarrow> string option \<times> db" where
  "next_fault s = (case faults s of [] \<Rightarrow> (None, s) | f # fs \<Rightarrow> (f, s\<lparr>faults := fs\<rparr>))"

text \<open>
  Modelled from the spec: \<open>Store.find\<close> (module \<open>./db\<close>). Looking a record up by id gives
  the record or nothing; an error is reported through the callback, without a record.
\<close>

definition Store_find :: "db \<Rightarrow> query \<Rightarrow> db \<times> (string + sdata option)" where
  "Store_find s q =
     (let (f, s1) = next_fault (s\<lparr>calls := calls s @ [Find q]\<rparr>)
      in case f of Some e \<Rightarrow> (s1, Inl e)
                 | None \<Rightarrow> (s1, Inr (find (matches q) (records s1))))"

text \<open>
  Modelled from the spec: \<open>Store.first\<close> (module \<open>./db\<close>), \<open>first(query) \<rightarrow> record|null\<close>.
\<close>

definition Store_first :: "db \<Rightarrow> query \<Rightarrow> db \<times> (string + sdata option)" where
  "Store_first s q =
     (let (f, s1) = next_fault (s\<lparr>calls := calls s @ [First q]\<rparr>)
      in case f of Some e \<Rightarrow> (s1, Inl e)
                 | None \<Rightarrow> (s1, Inr (find (matches q) (records s1))))"

text \<open>
  Modelled from the spec: \<open>Store.insert\<close> (module \<open>./db\<close>), \<open>insert(record) \<rightarrow> stored
  record with assigned id\<close>, the id assigned by the store or the caller.
\<close>

definition Store_insert :: "db \<Rightarrow> sdata \<Rightarrow> db \<times> (string + sdata)" where
  "Store_insert s d =
     (let (f, s1) = next_fault (s\<lparr>calls := calls s @ [Insert d]\<rparr>)
      in case f of Some e \<Rightarrow> (s1, Inl e)
                 | None \<Rightarrow>
          (if truthy_str (d_id d) then (s1\<lparr>records := records s1 @ [d]\<rparr>, Inr d)
           else (let d' = d\<lparr>d_id := Some (idSupply s1 (idCount s1))\<rparr>
                 in (s1\<lparr>records := records s1 @ [d'], idCount := idCount s1 + 1\<rparr>, Inr d'))))"

text \<open>
  Modelled from the spec: \<open>Store.remove\<close> (module \<open>./db\<close>), \<open>remove(query) \<rightarrow> ack\<close>: every
  record the query selects is deleted, unless the store reports an error.
\<close>

definition Store_remove :: "db \<Rightarrow> query \<Rightarrow> db \<times> string option" where
  "Store_remove s q =
     (let (f, s1) = next_fault (s\<lparr>calls := calls s @ [Remove q]\<rparr>)
      in case f of Some e \<Rightarrow> (s1, Some e)
                 | None \<Rightarrow> (s1\<lparr>records := filter (\<lambda>r. \<not> matches q r) (records s1)\<rparr>, None))"

section \<open>Sessions, indexes and sockets\<close>

type_synonym args = "string list"

datatype sock_call = SOn args | SEmit args

text \<open>
  A \<open>Session\<close> object: its data, its \<open>sid\<close> property, the variable \<open>sid\<close> its socket
  wrapper closes over, and the wrapper's two queues (\<open>None\<close> while the property is
  \<open>undefined\<close>).
\<close>

record session =
  data :: sdata
  sid :: "string option"
  cl_sid :: "string option"
  bindQueue :: "args list option"
  emitQueue :: "args list option"

text \<open>
  The state of the module and of one \<open>SessionStore\<close>: the two module-level indexes, the
  store's socket index, the \<open>once\<close> listeners of its socket queue in registration order,
  the \<open>Session\<close> objects by reference, what each live socket has received, the persistent
  store, the options, the time of the last sweep, the sweeps deferred with
  \<open>process.nextTick\<close>, and what was written with \<open>console.error\<close>.
\<close>

record state =
  sessionIndex :: "string \<rightharpoonup> nat"
  userSessionIndex :: "string \<rightharpoonup> nat"
  socketIndex :: "string \<rightharpoonup> nat"
  listeners :: "(string \<times> nat) list"
  heap :: "nat \<Rightarrow> session"
  nextRef :: nat
  sockLog :: "nat \<Rightarrow> sock_call list"
  db :: db
  maxAge :: int
  lastRun :: "int option"
  ticks :: nat
  console :: "string list"

subsection \<open>\<open>Session.prototype.remove\<close>\<close>

text \<open>
  \<open>remove(fn)\<close> is \<open>Session_remove st r None\<close>, \<open>remove(data, fn)\<close> is
  \<open>Session_remove st r (Some data)\<close>. The result is the new state and the error the
  callback receives.
\<close>

definition remove_target :: "state \<Rightarrow> nat \<Rightarrow> sdata option \<Rightarrow> sdata" where
  "remove_target st r darg = (case darg of None \<Rightarrow> data (heap st r) | Some d \<Rightarrow> d)"

definition Session_remove :: "state \<Rightarrow> nat \<Rightarrow> sdata option \<Rightarrow> state \<times> string option" where
  "Session_remove st r darg =
     (let d = remove_target st r darg
      in if \<not> truthy_str (d_id d) then (st, None)
         else
           (let st1 = st\<lparr>sessionIndex := (sessionIndex st)(key_of (d_id d) := None),
                         userSessionIndex := (userSessionIndex st)(key_of (d_uid d) := None),
                         socketIndex := (socketIndex st)(key_of (d_id d) := None)\<rparr>;
                (db1, err) = Store_remove (db st1) (QId (d_id d))
            in (st1\<lparr>db := db1\<rparr>, err)))"

subsection \<open>The \<open>Session\<close> constructor\<close>

text \<open>
  \<open>new Session(data, store, sockets, rawSockets)\<close> at time \<open>now\<close>: the data is cloned,
  \<open>createdOn\<close> and \<open>lastActive\<close> are filled in when falsy, \<open>this.sid\<close> and the closure's
  \<open>sid\<close> are set only for a truthy id, and a \<open>once\<close> listener is registered on the
  socket queue under \<open>this.sid\<close>. The result is the new state and the new object's
  reference.
\<close>

definition new_Session :: "state \<Rightarrow> sdata \<Rightarrow> int \<Rightarrow> state \<times> nat" where
  "new_Session st d now =
     (let d1 = (if \<not> truthy_num (d_createdOn d) then d\<lparr>d_createdOn := Some now\<rparr> else d);
          d2 = (if \<not> truthy_num (d_lastActive d1) then d1\<lparr>d_lastActive := Some now\<rparr> else d1);
          sidv = (if truthy_str (d_id d) then d_id d else None);
          r = nextRef st;
          sess = \<lparr>data = d2, sid = sidv, cl_sid = sidv, bindQueue = None, emitQueue = None\<rparr>
      in (st\<lparr>heap := (heap st)(r := sess), nextRef := r + 1,
              listeners := listeners st @ [(key_of sidv, r)]\<rparr>, r))"

subsection \<open>The socket wrapper and the socket queue\<close>

datatype wcall = WOn args | WEmit args

definition qlist :: "args list option \<Rightarrow> args list" where
  "qlist q = (case q of None \<Rightarrow> [] | Some xs \<Rightarrow> xs)"

text \<open>
  \<open>session.socket.on(...)\<close>: with a socket indexed under the closure's \<open>sid\<close> the call
  goes to that socket, otherwise the arguments are pushed on \<open>_bindQueue\<close>.
\<close>

definition wrapper_on :: "state \<Rightarrow> nat \<Rightarrow> args \<Rightarrow> state" where
  "wrapper_on st r a =
     (case socketIndex st (key_of (cl_sid (heap st r))) of
        Some k \<Rightarrow> st\<lparr>sockLog := (sockLog st)(k := sockLog st k @ [SOn a])\<rparr>
      | None \<Rightarrow> st\<lparr>heap := (heap st)(r := (heap st r)
                    \<lparr>bindQueue := Some (qlist (bindQueue (heap st r)) @ [a])\<rparr>)\<rparr>)"

text \<open>\<open>session.socket.emit(...)\<close>, the same with \<open>_emitQueue\<close>.\<close>

definition wrapper_emit :: "state \<Rightarrow> nat \<Rightarrow> args \<Rightarrow> state" where
  "wrapper_emit st r a =
     (case socketIndex st (key_of (cl_sid (heap st r))) of
        Some k \<Rightarrow> st\<lparr>sockLog := (sockLog st)(k := sockLog st k @ [SEmit a])\<rparr>
      | None \<Rightarrow> st\<lparr>heap := (heap st)(r := (heap st r)
                    \<lparr>emitQueue := Some (qlist (emitQueue (heap st r)) @ [a])\<rparr>)\<rparr>)"

fun wrapper_call :: "state \<Rightarrow> nat \<Rightarrow> wcall \<Rightarrow> state" where
  "wrapper_call st r (WOn a) = wrapper_on st r a"
| "wrapper_call st r (WEmit a) = wrapper_emit st r a"

fun wrapper_calls :: "state \<Rightarrow> nat \<Rightarrow> wcall list \<Rightarrow> state" where
  "wrapper_calls st r [] = st"
| "wrapper_calls st r (c # cs) = wrapper_calls (wrapper_call st r c) r cs"

text \<open>
  What a socket receives for a wrapper call, and the subscribe and the emit calls of a
  sequence of wrapper calls, each in the order of the sequence.
\<close>

fun sock_of :: "wcall \<Rightarrow> sock_call" where
  "sock_of (WOn a) = SOn a"
| "sock_of (WEmit a) = SEmit a"

fun subscribes :: "wcall list \<Rightarrow> args list" where
  "subscribes [] = []"
| "subscribes (WOn a # cs) = a # subscribes cs"
| "subscribes (WEmit a # cs) = subscribes cs"

fun emits :: "wcall list \<Rightarrow> args list" where
  "emits [] = []"
| "emits (WOn a # cs) = emits cs"
| "emits (WEmit a # cs) = a # emits cs"

text \<open>
  The \<open>once\<close> handler a session registers: what it sends to the socket, first the bind
  queue, then the emit queue, each in order. The queues themselves are left as they are.
\<close>

definition drain_calls :: "session \<Rightarrow> sock_call list" where
  "drain_calls s = map SOn (qlist (bindQueue s)) @ map SEmit (qlist (emitQueue s))"

definition drain :: "state \<Rightarrow> nat \<Rightarrow> nat \<Rightarrow> state" where
  "drain st r k = st\<lparr>sockLog := (sockLog st)(k := sockLog st k @ drain_calls (heap st r))\<rparr>"

fun drain_all :: "state \<Rightarrow> (string \<times> nat) list \<Rightarrow> nat \<Rightarrow> state" where
  "drain_all st [] k = st"
| "drain_all st (l # ls) k = drain_all (drain st (snd l) k) ls k"

text \<open>
  \<open>socketQueue.emit(sid, socket)\<close>: the listeners registered under \<open>sid\<close> are taken off
  the queue (they were registered with \<open>once\<close>) and run in registration order. The
  events of the queue are session ids; the emitter's own events (\<open>error\<close>,
  \<open>newListener\<close>, \<open>removeListener\<close>) are not among them.
\<close>

definition socketQueue_emit :: "state \<Rightarrow> string \<Rightarrow> nat \<Rightarrow> state" where
  "socketQueue_emit st x k =
     drain_all (st\<lparr>listeners := filter (\<lambda>l. fst l \<noteq> x) (listeners st)\<rparr>)
               (filter (\<lambda>l. fst l = x) (listeners st)) k"

text \<open>
  The handler of the registry's \<open>connection\<close> event, for socket \<open>k\<close> whose handshake
  carries the cookie \<open>sid\<close> (\<open>None\<close>: no such cookie).
\<close>

definition connection :: "state \<Rightarrow> string option \<Rightarrow> nat \<Rightarrow> state" where
  "connection st cookie k =
     (if truthy_str cookie
      then socketQueue_emit (st\<lparr>socketIndex := (socketIndex st)(key_of cookie \<mapsto> k)\<rparr>)
                            (key_of cookie) k
      else st)"

text \<open>
  The broadcast helpers \<open>emitToUsers\<close> and \<open>emitToAll\<close> of a session only forward to
  \<open>emit\<close> of other wrappers and of the registry; no property below depends on them, and
  they are left out.
\<close>

subsection \<open>\<open>Session.prototype.set\<close>, \<open>isAnonymous\<close>, \<open>fetch\<close>\<close>

text \<open>\<open>set(object)\<close> on the data: every key of \<open>object\<close> overwrites, the others stay.\<close>

definition merge_fld :: "'a option \<Rightarrow> 'a option \<Rightarrow> 'a option" where
  "merge_fld old new = (case new of None \<Rightarrow> old | Some v \<Rightarrow> Some v)"

definition set_data :: "sdata \<Rightarrow> sdata \<Rightarrow> sdata" where
  "set_data d obj =
     \<lparr>d_id = merge_fld (d_id d) (d_id obj),
      d_uid = merge_fld (d_uid d) (d_uid obj),
      d_createdOn = merge_fld (d_createdOn d) (d_createdOn obj),
      d_lastActive = merge_fld (d_lastActive d) (d_lastActive obj),
      d_anonymous = merge_fld (d_anonymous d) (d_anonymous obj),
      d_other = d_other d ++ d_other obj\<rparr>"

definition Session_set :: "state \<Rightarrow> nat \<Rightarrow> sdata \<Rightarrow> state" where
  "Session_set st r obj =
     st\<lparr>heap := (heap st)(r := (heap st r)\<lparr>data := set_data (data (heap st r)) obj\<rparr>)\<rparr>"

definition Session_isAnonymous :: "state \<Rightarrow> nat \<Rightarrow> bool option" where
  "Session_isAnonymous st r = d_anonymous (data (heap st r))"

datatype js_error = TypeError

text \<open>
  The callback \<open>fetch\<close> hands to \<open>store.first\<close>, called with \<open>(err, data)\<close>. It runs
  \<open>session.set(data)\<close> first: with no data, \<open>Object.keys\<close> throws a \<open>TypeError\<close> and
  \<open>fn\<close> is never reached. Otherwise \<open>fn(err, data)\<close> is called.
\<close>

definition fetch_cb ::
  "state \<Rightarrow> nat \<Rightarrow> string option \<Rightarrow> sdata option \<Rightarrow> state \<times> (js_error + string option \<times> sdata)" where
  "fetch_cb st r err dopt =
     (case dopt of None \<Rightarrow> (st, Inl TypeError)
                 | Some d \<Rightarrow> (Session_set st r d, Inr (err, d)))"

definition Session_fetch :: "state \<Rightarrow> nat \<Rightarrow> state \<times> (js_error + string option \<times> sdata)" where
  "Session_fetch st r =
     (let (db1, res) = Store_first (db st) (QId (d_id (data (heap st r))));
          st1 = st\<lparr>db := db1\<rparr>
      in case res of Inl e \<Rightarrow> fetch_cb st1 r (Some e) None
                   | Inr dopt \<Rightarrow> fetch_cb st1 r None dopt)"

subsection \<open>\<open>createUniqueIdentifier\<close> and \<open>Session.prototype.save\<close>\<close>

definition hex_digit :: "nat \<Rightarrow> char" where
  "hex_digit n = ''0123456789abcdef'' ! (n mod 16)"

definition hex_byte :: "8 word \<Rightarrow> string" where
  "hex_byte b = [hex_digit (unat b div 16), hex_digit (unat b mod 16)]"

text \<open>
  \<open>crypto.randomBytes(64).toString('hex')\<close>, as a function of the random bytes
  \<open>crypto.randomBytes\<close> returned.
\<close>

definition createUniqueIdentifier :: "8 word list \<Rightarrow> string" where
  "createUniqueIdentifier rnd = concat (map hex_byte rnd)"

text \<open>
  The first lines of \<open>save\<close>: the clone of the data that will be stored, and the local
  variable \<open>sid\<close>. The \<open>var sid\<close> is declared inside the \<open>if\<close>, so it is \<open>undefined\<close>
  unless the session was anonymous.
\<close>

definition save_data :: "sdata \<Rightarrow> 8 word list \<Rightarrow> sdata" where
  "save_data d rnd =
     (if truthy_bool (d_anonymous d)
      then d\<lparr>d_anonymous := None, d_id := Some (createUniqueIdentifier rnd)\<rparr>
      else d)"

definition save_sid :: "sdata \<Rightarrow> 8 word list \<Rightarrow> string option" where
  "save_sid d rnd =
     (if truthy_bool (d_anonymous d) then Some (createUniqueIdentifier rnd) else None)"

text \<open>
  \<open>save(fn)\<close>, with the bytes \<open>crypto.randomBytes\<close> gives if it is asked. The result is
  the new state and what \<open>fn\<close> receives: \<open>Inl err\<close> or \<open>Inr res\<close>.
\<close>

definition Session_save :: "state \<Rightarrow> nat \<Rightarrow> 8 word list \<Rightarrow> state \<times> (string + sdata)" where
  "Session_save st r rnd =
     (let d = save_data (data (heap st r)) rnd;
          sidv = save_sid (data (heap st r)) rnd;
          (st1, err) = Session_remove st r (Some d)
      in case err of
           Some e \<Rightarrow> (st1, Inl e)
         | None \<Rightarrow>
            (let (db2, ins) = Store_insert (db st1) d
             in case ins of
                  Inl e \<Rightarrow> (st1\<lparr>db := db2\<rparr>, Inl e)
                | Inr res \<Rightarrow>
                    (let ui = (if truthy_str (d_uid res)
                               then (userSessionIndex st1)(key_of (d_uid res) \<mapsto> r)
                               else userSessionIndex st1)
                     in (st1\<lparr>db := db2,
                             heap := (heap st1)(r := (heap st1 r)\<lparr>data := res, sid := d_id res\<rparr>),
                             sessionIndex := (sessionIndex st1)(key_of sidv \<mapsto> r),
                             userSessionIndex := ui\<rparr>, Inr res))))"

subsection \<open>\<open>SessionStore\<close>\<close>

text \<open>
  The constructor, for a module whose indexes are still empty: \<open>options.maxAge\<close>
  defaults to 30 days when falsy, and a first sweep is deferred to the next tick.
\<close>

definition SessionStore :: "db \<Rightarrow> int option \<Rightarrow> state" where
  "SessionStore d opt =
     \<lparr>sessionIndex = Map.empty, userSessionIndex = Map.empty, socketIndex = Map.empty,
      listeners = [],
      heap = (\<lambda>_. \<lparr>data = anon, sid = None, cl_sid = None, bindQueue = None, emitQueue = None\<rparr>),
      nextRef = 0, sockLog = (\<lambda>_. []), db = d,
      maxAge = (case opt of None \<Rightarrow> 30 * 24 * 60 * 60 * 1000
                          | Some m \<Rightarrow> if m = 0 then 30 * 24 * 60 * 60 * 1000 else m),
      lastRun = None, ticks = 1, console = []\<rparr>"

definition sweep_query :: "state \<Rightarrow> int \<Rightarrow> query" where
  "sweep_query st now = QOr [QLastActiveLt (now - maxAge st), QLastActiveExists False]"

text \<open>
  \<open>cleanupInactiveSessions()\<close> at time \<open>now\<close>. It has no callback and returns nothing:
  the result is the new state only.
\<close>

definition cleanupInactiveSessions :: "state \<Rightarrow> int \<Rightarrow> state" where
  "cleanupInactiveSessions st now =
     (let (db1, err) = Store_remove (db st) (sweep_query st now)
      in st\<lparr>db := db1,
            console := console st @
               (case err of None \<Rightarrow> [] | Some e \<Rightarrow> [''Error removing old sessions: '' @ e]),
            lastRun := Some now\<rparr>)"

text \<open>One deferred sweep runs, if any is pending.\<close>

definition run_tick :: "state \<Rightarrow> int \<Rightarrow> state" where
  "run_tick st now =
     (if ticks st = 0 then st else cleanupInactiveSessions (st\<lparr>ticks := ticks st - 1\<rparr>) now)"

definition getSession :: "state \<Rightarrow> string option \<Rightarrow> nat option" where
  "getSession st uid = userSessionIndex st (key_of uid)"

text \<open>
  The callback \<open>createSession\<close> hands to \<open>find\<close>, for a record lookup that reported no
  error: \<open>x\<close> is the \<open>sid\<close> argument, \<open>s0\<close> what the store found. After the staleness
  test \<open>sid\<close> is either \<open>x\<close> or \<open>null\<close>, and \<open>sessionIndex[null]\<close> reads the key \<open>"null"\<close>.
\<close>

definition is_stale :: "state \<Rightarrow> sdata option \<Rightarrow> int \<Rightarrow> bool" where
  "is_stale st s0 now =
     (case s0 of None \<Rightarrow> True | Some s \<Rightarrow> lt_js (d_lastActive s) (now - maxAge st))"

definition needs_touch :: "sdata \<Rightarrow> int \<Rightarrow> bool" where
  "needs_touch d now =
     (\<not> truthy_bool (d_anonymous d) \<and>
      (\<not> truthy_num (d_lastActive d) \<or> lt_js (d_lastActive d) (now - 10 * 1000)))"

definition createSession_found ::
  "state \<Rightarrow> string \<Rightarrow> sdata option \<Rightarrow> int \<Rightarrow> 8 word list \<Rightarrow> state \<times> (string + nat)" where
  "createSession_found st x s0 now rnd =
     (let stale = is_stale st s0 now;
          s = (case s0 of None \<Rightarrow> anon | Some s' \<Rightarrow> if stale then anon else s');
          k = (if stale then ''null'' else x);
          (st2, r) = (case sessionIndex st k of Some r' \<Rightarrow> (st, r')
                                             | None \<Rightarrow> new_Session st s now);
          st3 = (if stale then st2 else st2\<lparr>sessionIndex := (sessionIndex st2)(x \<mapsto> r)\<rparr>);
          st4 = (if truthy_str (d_uid s)
                 then st3\<lparr>userSessionIndex := (userSessionIndex st3)(key_of (d_uid s) \<mapsto> r)\<rparr>
                 else st3)
      in if needs_touch (data (heap st4 r)) now
         then (let st5 = st4\<lparr>heap := (heap st4)(r := (heap st4 r)
                               \<lparr>data := (data (heap st4 r))\<lparr>d_lastActive := Some now\<rparr>\<rparr>)\<rparr>
               in (fst (Session_save st5 r rnd), Inr r))
         else (st4, Inr r))"

text \<open>
  \<open>createSession(sid, fn)\<close> at time \<open>now\<close> (\<open>createSession(fn)\<close> is the call with
  \<open>None\<close>). The result is the new state and what \<open>fn\<close> receives, an error or the session.
  Every \<open>Date.now()\<close> of the call reads the same time \<open>now\<close>, and \<open>rnd\<close> are the bytes
  \<open>crypto.randomBytes\<close> gives if \<open>save\<close> asks for them. The sweep, when due, is deferred
  with \<open>process.nextTick\<close>.
\<close>

definition createSession ::
  "state \<Rightarrow> string option \<Rightarrow> int \<Rightarrow> 8 word list \<Rightarrow> state \<times> (string + nat)" where
  "createSession st sidarg now rnd =
     (let (st1, res) =
            (if truthy_str sidarg
             then (let (db1, fr) = Store_find (db st) (QId sidarg)
                   in case fr of
                        Inl e \<Rightarrow> (st\<lparr>db := db1\<rparr>, Inl e)
                      | Inr s0 \<Rightarrow> createSession_found (st\<lparr>db := db1\<rparr>) (key_of sidarg) s0 now rnd)
             else (let (st', r) = new_Session st anon now in (st', Inr r)))
      in (if lt_js (lastRun st1) (now - 60 * 1000) then st1\<lparr>ticks := ticks st1 + 1\<rparr> else st1,
          res))"

section \<open>Example states\<close>

definition ex_db :: db where
  "ex_db = \<lparr>records = [], calls = [], faults = [], idSupply = (\<lambda>n. ''store-id''), idCount = 0\<rparr>"

definition ex_rec :: sdata where
  "ex_rec = \<lparr>d_id = Some ''abc'', d_uid = Some ''u1'', d_createdOn = Some 5,
             d_lastActive = Some 940000, d_anonymous = None, d_other = Map.empty\<rparr>"

text \<open>The same record without \<open>lastActive\<close>.\<close>

definition ex_legacy :: sdata where
  "ex_legacy = \<lparr>d_id = Some ''abc'', d_uid = Some ''u1'', d_createdOn = Some 5,
                d_lastActive = None, d_anonymous = None, d_other = Map.empty\<rparr>"

definition ex_sess :: session where
  "ex_sess = \<lparr>data = ex_rec, sid = Some ''abc'', cl_sid = Some ''abc'',
              bindQueue = None, emitQueue = None\<rparr>"

text \<open>
  Two sessions of user \<open>u1\<close> with id \<open>abc\<close>: object 0 is in the session index, object 1
  in the user index, and socket 7 is connected under \<open>abc\<close>.
\<close>

definition ex_live :: state where
  "ex_live = \<lparr>sessionIndex = [''abc'' \<mapsto> 0], userSessionIndex = [''u1'' \<mapsto> 1],
              socketIndex = [''abc'' \<mapsto> 7], listeners = [], heap = (\<lambda>_. ex_sess),
              nextRef = 2, sockLog = (\<lambda>_. []), db = ex_db\<lparr>records := [ex_rec]\<rparr>,
              maxAge = 2592000000, lastRun = Some 999000, ticks = 0, console = []\<rparr>"

text \<open>The same, with a store whose next call fails.\<close>

definition ex_live_faulty :: state where
  "ex_live_faulty = ex_live\<lparr>db := ex_db\<lparr>records := [ex_rec], faults := [Some ''disk full'']\<rparr>\<rparr>"

text \<open>A store holding \<open>abc\<close> whose next call fails, behind an otherwise empty module.\<close>

definition ex_faulty :: state where
  "ex_faulty = SessionStore (ex_db\<lparr>records := [ex_rec], faults := [Some ''disk full'']\<rparr>) None"

text \<open>
  An empty module in front of a store that holds \<open>abc\<close>, last active 60 seconds before
  time 1000000, and the same with the record that has no \<open>lastActive\<close>. The sweep has
  run a second before.
\<close>

definition ex_fresh :: state where
  "ex_fresh = (SessionStore (ex_db\<lparr>records := [ex_rec]\<rparr>) None)\<lparr>lastRun := Some 999000, ticks := 0\<rparr>"

definition ex_old :: state where
  "ex_old = (SessionStore (ex_db\<lparr>records := [ex_legacy]\<rparr>) None)\<lparr>lastRun := Some 999000, ticks := 0\<rparr>"

text \<open>One anonymous session, object 0, created at time 1000.\<close>

definition ex_anon :: state where
  "ex_anon = fst (new_Session (SessionStore ex_db None) anon 1000)"

definition ex_bytes :: "8 word list" where
  "ex_bytes = replicate 64 0"

definition ex_saved :: sdata where
  "ex_saved = \<lparr>d_id = Some (createUniqueIdentifier ex_bytes), d_uid = None, d_createdOn = Some 1000,
               d_lastActive = Some 1000, d_anonymous = None, d_other = Map.empty\<rparr>"

text \<open>
  One session with id \<open>abc\<close>, object 0, created at time 1000 and still waiting for its
  socket, and four calls on its wrapper.
\<close>

definition ex_wait :: state where
  "ex_wait = fst (new_Session (SessionStore ex_db None) ex_rec 1000)"

definition ex_calls :: "wcall list" where
  "ex_calls = [WOn [''A''], WEmit [''X''], WOn [''B''], WEmit [''Y'']]"

lemmas truthy_defs = truthy_str_def truthy_num_def truthy_bool_def lt_js_def key_of_def

lemmas store_defs =
  Store_find_def Store_first_def Store_insert_def Store_remove_def next_fault_def

lemmas example_defs =
  ex_db_def ex_rec_def ex_legacy_def ex_sess_def ex_live_def ex_live_faulty_def ex_faulty_def
  ex_fresh_def ex_old_def ex_anon_def SessionStore_def anon_def

lemmas run_defs =
  createSession_def createSession_found_def is_stale_def needs_touch_def new_Session_def
  Session_save_def save_data_def save_sid_def Session_remove_def remove_target_def Let_def

section \<open>Facts about the store\<close>

lemma Store_remove_calls: "calls (fst (Store_remove s q)) = calls s @ [Remove q]"
  by (simp add: Store_remove_def next_fault_def split: list.splits option.splits)

lemma Store_remove_ok_records:
  "snd (Store_remove s q) = None \<Longrightarrow>
   records (fst (Store_remove s q)) = filter (\<lambda>r. \<not> matches q r) (records s)"
  by (simp add: Store_remove_def next_fault_def split: list.splits option.splits)

lemma Store_remove_err_records:
  "snd (Store_remove s q) = Some e \<Longrightarrow> records (fst (Store_remove s q)) = records s"
  by (simp add: Store_remove_def next_fault_def split: list.splits option.splits)

lemma Store_first_result:
  "snd (Store_first s q) = Inr (Some rec) \<Longrightarrow> find (matches q) (records s) = Some rec"
  by (simp add: Store_first_def next_fault_def split: list.splits option.splits)

lemma Store_insert_with_id:
  assumes "truthy_str (d_id d)" "snd (Store_insert s d) = Inr res"
  shows "res = d" "records (fst (Store_insert s d)) = records s @ [d]"
  using assms
  by (simp_all add: Store_insert_def next_fault_def Let_def split: list.splits option.splits)

lemma Store_find_calls: "calls (fst (Store_find s q)) = calls s @ [Find q]"
  by (simp add: Store_find_def next_fault_def split: list.splits option.splits)

lemma Store_insert_result:
  assumes "snd (Store_insert s d) = Inr res"
  shows "res \<in> set (records (fst (Store_insert s d)))"
    and "d_uid res = d_uid d" and "d_lastActive res = d_lastActive d"
    and "d_createdOn res = d_createdOn d" and "d_anonymous res = d_anonymous d"
    and "d_other res = d_other d"
    and "truthy_str (d_id d) \<Longrightarrow> d_id res = d_id d"
  using assms
  by (auto simp add: Store_insert_def next_fault_def Let_def split: list.splits option.splits if_splits)

section \<open>Facts about identifiers\<close>

lemma hex_byte_length: "length (hex_byte b) = 2"
  by (simp add: hex_byte_def)

lemma createUniqueIdentifier_length: "length (createUniqueIdentifier rnd) = 2 * length rnd"
  by (induction rnd) (simp_all add: createUniqueIdentifier_def hex_byte_length)

lemma hex_digit_range: "hex_digit n \<in> set ''0123456789abcdef''"
proof -
  have "n mod 16 < length ''0123456789abcdef''" by simp
  then show ?thesis unfolding hex_digit_def by (rule nth_mem)
qed

lemma createUniqueIdentifier_digits:
  "c \<in> set (createUniqueIdentifier rnd) \<Longrightarrow> \<exists>n. c = hex_digit n"
  by (auto simp: createUniqueIdentifier_def hex_byte_def)

lemma createUniqueIdentifier_hex:
  "set (createUniqueIdentifier rnd) \<subseteq> set ''0123456789abcdef''"
proof (rule subsetI)
  fix c
  assume "c \<in> set (createUniqueIdentifier rnd)"
  then obtain n where c: "c = hex_digit n"
    using createUniqueIdentifier_digits by blast
  show "c \<in> set ''0123456789abcdef''"
    unfolding c by (rule hex_digit_range)
qed

lemma hex_digit_inj:
  assumes "hex_digit n = hex_digit m" "n < 16" "m < 16"
  shows "n = m"
proof -
  have d: "distinct ''0123456789abcdef''" by simp
  have "n mod 16 = m mod 16"
    using assms(1) nth_eq_iff_index_eq [OF d, of "n mod 16" "m mod 16"]
    unfolding hex_digit_def by simp
  with assms(2,3) show ?thesis by simp
qed

lemma hex_byte_inj:
  assumes "hex_byte a = hex_byte b"
  shows "a = b"
proof -
  have la: "unat a < 256" and lb: "unat b < 256"
    using unsigned_less [of a, where 'a = nat] unsigned_less [of b, where 'a = nat] by simp_all
  from assms have hi: "hex_digit (unat a div 16) = hex_digit (unat b div 16)"
    and lo: "hex_digit (unat a mod 16) = hex_digit (unat b mod 16)"
    by (simp_all add: hex_byte_def)
  have "unat a div 16 = unat b div 16"
    using hi la lb by (intro hex_digit_inj) simp_all
  moreover have "unat a mod 16 = unat b mod 16"
    using lo by (intro hex_digit_inj) simp_all
  ultimately have "unat a = unat b"
    by (metis div_mult_mod_eq)
  then show ?thesis by (rule word_unat_eq_iff [THEN iffD2])
qed

text \<open>Different random bytes give different identifiers.\<close>

lemma createUniqueIdentifier_inj:
  "createUniqueIdentifier a = createUniqueIdentifier b \<Longrightarrow> a = b"
proof (induction a arbitrary: b)
  case Nil
  then show ?case
    by (cases b) (simp_all add: createUniqueIdentifier_def hex_byte_def)
next
  case (Cons x xs)
  show ?case
  proof (cases b)
    case Nil
    with Cons.prems show ?thesis
      by (simp add: createUniqueIdentifier_def hex_byte_def)
  next
    case (Cons y ys)
    from Cons.prems have eq: "hex_byte x @ createUniqueIdentifier xs = hex_byte y @ createUniqueIdentifier ys"
      by (simp add: Cons createUniqueIdentifier_def)
    then have "hex_byte x = hex_byte y" "createUniqueIdentifier xs = createUniqueIdentifier ys"
      by (simp_all add: hex_byte_length)
    then show ?thesis
      using Cons.IH hex_byte_inj by (simp add: Cons)
  qed
qed

section \<open>Facts about \<open>remove\<close> and \<open>save\<close>\<close>

lemma Session_remove_heap: "heap (fst (Session_remove st r darg)) = heap st"
  by (simp add: Session_remove_def Let_def split_beta)

lemma Session_remove_sockLog: "sockLog (fst (Session_remove st r darg)) = sockLog st"
  by (simp add: Session_remove_def Let_def split_beta)

lemma Session_save_success:
  assumes "snd (Session_save st r rnd) = Inr res"
  shows "snd (Session_remove st r (Some (save_data (data (heap st r)) rnd))) = None"
    and "snd (Store_insert (db (fst (Session_remove st r (Some (save_data (data (heap st r)) rnd)))))
              (save_data (data (heap st r)) rnd)) = Inr res"
    and "data (heap (fst (Session_save st r rnd)) r) = res"
    and "db (fst (Session_save st r rnd)) =
         fst (Store_insert (db (fst (Session_remove st r (Some (save_data (data (heap st r)) rnd)))))
              (save_data (data (heap st r)) rnd))"
  using assms
  by (simp_all add: Session_save_def Let_def split_beta split: option.splits sum.splits)

lemma Session_save_socketIndex:
  "socketIndex (fst (Session_save st r rnd)) =
   socketIndex (fst (Session_remove st r (Some (save_data (data (heap st r)) rnd))))"
  by (simp add: Session_save_def Let_def split_beta split: option.splits sum.splits)

lemma Session_save_wrapper:
  "cl_sid (heap (fst (Session_save st r rnd)) r) = cl_sid (heap st r)"
  "bindQueue (heap (fst (Session_save st r rnd)) r) = bindQueue (heap st r)"
  "emitQueue (heap (fst (Session_save st r rnd)) r) = emitQueue (heap st r)"
  "sockLog (fst (Session_save st r rnd)) = sockLog st"
  by (simp_all add: Session_save_def Let_def split_beta Session_remove_heap Session_remove_sockLog
      split: option.splits sum.splits)

lemma Session_save_listeners: "listeners (fst (Session_save st r rnd)) = listeners st"
  by (simp add: Session_save_def Session_remove_def Let_def split_beta
      split: option.splits sum.splits)

text \<open>What a successful \<open>save\<close> does to the two indexes.\<close>

lemma Session_save_indexes:
  assumes ok: "snd (Session_save st r rnd) = Inr res"
  shows "sessionIndex (fst (Session_save st r rnd)) (key_of (save_sid (data (heap st r)) rnd)) = Some r"
    and "truthy_bool (d_anonymous (data (heap st r))) \<Longrightarrow>
         save_sid (data (heap st r)) rnd = Some (createUniqueIdentifier rnd)"
    and "\<not> truthy_bool (d_anonymous (data (heap st r))) \<Longrightarrow>
         save_sid (data (heap st r)) rnd = None"
    and "truthy_str (d_uid res) \<Longrightarrow>
         userSessionIndex (fst (Session_save st r rnd)) (key_of (d_uid res)) = Some r"
    and "data (heap (fst (Session_save st r rnd)) r) = res"
    and "sid (heap (fst (Session_save st r rnd)) r) = d_id res"
  using assms
  by (auto simp add: Session_save_def save_sid_def Let_def split_beta split: option.splits sum.splits)

section \<open>Facts about the socket wrapper and the socket queue\<close>

lemma wrapper_on_unbound:
  assumes "socketIndex st (key_of (cl_sid (heap st r))) = None"
  shows "wrapper_on st r a = st\<lparr>heap := (heap st)(r := (heap st r)
                    \<lparr>bindQueue := Some (qlist (bindQueue (heap st r)) @ [a])\<rparr>)\<rparr>"
  using assms by (simp add: wrapper_on_def)

lemma wrapper_emit_unbound:
  assumes "socketIndex st (key_of (cl_sid (heap st r))) = None"
  shows "wrapper_emit st r a = st\<lparr>heap := (heap st)(r := (heap st r)
                    \<lparr>emitQueue := Some (qlist (emitQueue (heap st r)) @ [a])\<rparr>)\<rparr>"
  using assms by (simp add: wrapper_emit_def)

lemma wrapper_on_bound:
  assumes "socketIndex st (key_of (cl_sid (heap st r))) = Some k"
  shows "wrapper_on st r a = st\<lparr>sockLog := (sockLog st)(k := sockLog st k @ [SOn a])\<rparr>"
  using assms by (simp add: wrapper_on_def)

lemma wrapper_emit_bound:
  assumes "socketIndex st (key_of (cl_sid (heap st r))) = Some k"
  shows "wrapper_emit st r a = st\<lparr>sockLog := (sockLog st)(k := sockLog st k @ [SEmit a])\<rparr>"
  using assms by (simp add: wrapper_emit_def)

lemma wrapper_call_bound:
  assumes "socketIndex st (key_of (cl_sid (heap st r))) = Some k"
  shows "wrapper_call st r c = st\<lparr>sockLog := (sockLog st)(k := sockLog st k @ [sock_of c])\<rparr>"
  using assms by (cases c) (simp_all add: wrapper_on_bound wrapper_emit_bound)

lemma qlist_Some: "qlist (Some xs) = xs"
  by (simp add: qlist_def)

lemma wrapper_calls_unbound:
  assumes "socketIndex st (key_of (cl_sid (heap st r))) = None"
  shows "socketIndex (wrapper_calls st r cs) = socketIndex st
       \<and> listeners (wrapper_calls st r cs) = listeners st
       \<and> sockLog (wrapper_calls st r cs) = sockLog st
       \<and> cl_sid (heap (wrapper_calls st r cs) r) = cl_sid (heap st r)
       \<and> qlist (bindQueue (heap (wrapper_calls st r cs) r)) = qlist (bindQueue (heap st r)) @ subscribes cs
       \<and> qlist (emitQueue (heap (wrapper_calls st r cs) r)) = qlist (emitQueue (heap st r)) @ emits cs
       \<and> (\<forall>r'. r' \<noteq> r \<longrightarrow> heap (wrapper_calls st r cs) r' = heap st r')"
  using assms
proof (induction cs arbitrary: st)
  case Nil
  show ?case by simp
next
  case (Cons c cs)
  show ?case
  proof (cases c)
    case (WOn a)
    let ?s = "wrapper_on st r a"
    have step: "?s = st\<lparr>heap := (heap st)(r := (heap st r)
                    \<lparr>bindQueue := Some (qlist (bindQueue (heap st r)) @ [a])\<rparr>)\<rparr>"
      by (rule wrapper_on_unbound [OF Cons.prems])
    have unb: "socketIndex ?s (key_of (cl_sid (heap ?s r))) = None"
      using Cons.prems by (simp add: step)
    show ?thesis
      using Cons.IH [OF unb] by (simp add: WOn) (simp add: step qlist_Some)
  next
    case (WEmit a)
    let ?s = "wrapper_emit st r a"
    have step: "?s = st\<lparr>heap := (heap st)(r := (heap st r)
                    \<lparr>emitQueue := Some (qlist (emitQueue (heap st r)) @ [a])\<rparr>)\<rparr>"
      by (rule wrapper_emit_unbound [OF Cons.prems])
    have unb: "socketIndex ?s (key_of (cl_sid (heap ?s r))) = None"
      using Cons.prems by (simp add: step)
    show ?thesis
      using Cons.IH [OF unb] by (simp add: WEmit) (simp add: step qlist_Some)
  qed
qed

lemma drain_all_frame:
  "heap (drain_all st ls k) = heap st"
  "listeners (drain_all st ls k) = listeners st"
  "socketIndex (drain_all st ls k) = socketIndex st"
  by (induction ls arbitrary: st) (simp_all add: drain_def)

lemma drain_all_log:
  "sockLog (drain_all st ls k) =
   (sockLog st)(k := sockLog st k @ concat (map (\<lambda>l. drain_calls (heap st (snd l))) ls))"
proof (induction ls arbitrary: st)
  case Nil
  show ?case by simp
next
  case (Cons l ls)
  show ?case by (simp add: Cons.IH drain_def fun_eq_iff)
qed

lemma connection_truthy:
  assumes "x \<noteq> []"
  shows "connection st (Some x) k =
         drain_all (st\<lparr>socketIndex := (socketIndex st)(x \<mapsto> k),
                       listeners := filter (\<lambda>l. fst l \<noteq> x) (listeners st)\<rparr>)
                   (filter (\<lambda>l. fst l = x) (listeners st)) k"
  using assms by (simp add: connection_def socketQueue_emit_def truthy_str_def key_of_def)

text \<open>
  The constructor registers the new object once, after the objects registered before.
\<close>

lemma new_Session_registers:
  assumes "\<forall>l \<in> set (listeners st). snd l < nextRef st" "distinct (map snd (listeners st))"
  shows "(key_of (cl_sid (heap (fst (new_Session st d now)) (snd (new_Session st d now)))),
          snd (new_Session st d now)) \<in> set (listeners (fst (new_Session st d now)))"
    and "distinct (map snd (listeners (fst (new_Session st d now))))"
    and "\<forall>l \<in> set (listeners (fst (new_Session st d now))). snd l < nextRef (fst (new_Session st d now))"
    and "socketIndex (fst (new_Session st d now)) = socketIndex st"
  using assms by (auto simp add: new_Session_def Let_def)

section \<open>Facts about \<open>createSession\<close>\<close>

lemma tick_frame:
  "db (if c then st\<lparr>ticks := t\<rparr> else st) = db st"
  "heap (if c then st\<lparr>ticks := t\<rparr> else st) = heap st"
  "sessionIndex (if c then st\<lparr>ticks := t\<rparr> else st) = sessionIndex st"
  "userSessionIndex (if c then st\<lparr>ticks := t\<rparr> else st) = userSessionIndex st"
  "socketIndex (if c then st\<lparr>ticks := t\<rparr> else st) = socketIndex st"
  by simp_all

lemma createSession_with_sid:
  assumes "x \<noteq> []" and "snd (Store_find (db st) (QId (Some x))) = Inr s0"
  shows "snd (createSession st (Some x) now rnd)
           = snd (createSession_found (st\<lparr>db := fst (Store_find (db st) (QId (Some x)))\<rparr>) x s0 now rnd)"
    and "db (fst (createSession st (Some x) now rnd))
           = db (fst (createSession_found (st\<lparr>db := fst (Store_find (db st) (QId (Some x)))\<rparr>) x s0 now rnd))"
    and "heap (fst (createSession st (Some x) now rnd))
           = heap (fst (createSession_found (st\<lparr>db := fst (Store_find (db st) (QId (Some x)))\<rparr>) x s0 now rnd))"
    and "sessionIndex (fst (createSession st (Some x) now rnd))
           = sessionIndex (fst (createSession_found (st\<lparr>db := fst (Store_find (db st) (QId (Some x)))\<rparr>) x s0 now rnd))"
  using assms
  by (simp_all add: createSession_def truthy_str_def key_of_def split_beta Let_def)

text \<open>No sid: a new anonymous session, no store call.\<close>

lemma createSession_without_sid:
  assumes "\<not> truthy_str sidarg"
  shows "snd (createSession st sidarg now rnd) = Inr (nextRef st)"
    and "db (fst (createSession st sidarg now rnd)) = db st"
    and "d_anonymous (data (heap (fst (createSession st sidarg now rnd)) (nextRef st))) = Some True"
    and "d_id (data (heap (fst (createSession st sidarg now rnd)) (nextRef st))) = None"
  using assms
  by (simp_all add: createSession_def new_Session_def anon_def truthy_num_def truthy_str_def
      split_beta Let_def)

text \<open>A store error goes to the callback; no session is built.\<close>

lemma createSession_find_error:
  assumes "x \<noteq> []" and "snd (Store_find (db st) (QId (Some x))) = Inl e"
  shows "snd (createSession st (Some x) now rnd) = Inl e"
    and "heap (fst (createSession st (Some x) now rnd)) = heap st"
    and "sessionIndex (fst (createSession st (Some x) now rnd)) = sessionIndex st"
  using assms
  by (simp_all add: createSession_def truthy_str_def key_of_def split_beta Let_def)

text \<open>
  No record, or a record older than \<open>maxAge\<close>: the callback receives a new anonymous
  session without id, and the store receives nothing but the \<open>find\<close>; this needs that no
  session is indexed under the key \<open>null\<close>, which \<open>sessionIndex[sid]\<close> reads after
  \<open>sid = null\<close>.
\<close>

lemma createSession_demotes:
  assumes sid: "x \<noteq> []"
      and found: "snd (Store_find (db st) (QId (Some x))) = Inr s0"
      and stale: "s0 = None \<or> (\<exists>s t. s0 = Some s \<and> d_lastActive s = Some t \<and> t < now - maxAge st)"
      and nonull: "sessionIndex st ''null'' = None"
  shows "snd (createSession st (Some x) now rnd) = Inr (nextRef st)"
    and "d_anonymous (data (heap (fst (createSession st (Some x) now rnd)) (nextRef st))) = Some True"
    and "d_id (data (heap (fst (createSession st (Some x) now rnd)) (nextRef st))) = None"
    and "sessionIndex (fst (createSession st (Some x) now rnd)) = sessionIndex st"
    and "calls (db (fst (createSession st (Some x) now rnd))) = calls (db st) @ [Find (QId (Some x))]"
proof -
  define st0 where "st0 = st\<lparr>db := fst (Store_find (db st) (QId (Some x)))\<rparr>"
  have st: "is_stale st0 s0 now"
    using stale by (auto simp: is_stale_def lt_js_def st0_def)
  have run: "createSession_found st0 x s0 now rnd = (fst (new_Session st0 anon now), Inr (nextRef st))"
    using st nonull
    by (cases s0)
       (simp_all add: createSession_found_def st0_def new_Session_def anon_def needs_touch_def
          truthy_defs Let_def)
  note c = createSession_with_sid [OF sid found, of now rnd, folded st0_def, unfolded run fst_conv snd_conv]
  show "snd (createSession st (Some x) now rnd) = Inr (nextRef st)" by (rule c(1))
  show "d_anonymous (data (heap (fst (createSession st (Some x) now rnd)) (nextRef st))) = Some True"
    unfolding c(3) by (simp add: new_Session_def anon_def st0_def truthy_defs Let_def)
  show "d_id (data (heap (fst (createSession st (Some x) now rnd)) (nextRef st))) = None"
    unfolding c(3) by (simp add: new_Session_def anon_def st0_def truthy_defs Let_def)
  show "sessionIndex (fst (createSession st (Some x) now rnd)) = sessionIndex st"
    unfolding c(4) by (simp add: new_Session_def st0_def Let_def)
  show "calls (db (fst (createSession st (Some x) now rnd))) = calls (db st) @ [Find (QId (Some x))]"
    unfolding c(2) by (simp add: new_Session_def st0_def Let_def Store_find_calls)
qed

text \<open>
  A record that is not stale and a session cached under the id whose \<open>lastActive\<close> is set
  and not older than 10 seconds: the callback receives the cached session and the store
  receives nothing but the \<open>find\<close>.
\<close>

lemma createSession_throttles:
  assumes sid: "x \<noteq> []"
      and found: "snd (Store_find (db st) (QId (Some x))) = Inr (Some s)"
      and fresh: "\<not> lt_js (d_lastActive s) (now - maxAge st)"
      and cached: "sessionIndex st x = Some r"
      and active: "\<not> needs_touch (data (heap st r)) now"
  shows "snd (createSession st (Some x) now rnd) = Inr r"
    and "calls (db (fst (createSession st (Some x) now rnd))) = calls (db st) @ [Find (QId (Some x))]"
    and "heap (fst (createSession st (Some x) now rnd)) = heap st"
    and "sessionIndex (fst (createSession st (Some x) now rnd)) x = Some r"
proof -
  define st0 where "st0 = st\<lparr>db := fst (Store_find (db st) (QId (Some x)))\<rparr>"
  define st4 where "st4 = (if truthy_str (d_uid s)
      then st0\<lparr>sessionIndex := (sessionIndex st0)(x \<mapsto> r),
               userSessionIndex := (userSessionIndex st0)(key_of (d_uid s) \<mapsto> r)\<rparr>
      else st0\<lparr>sessionIndex := (sessionIndex st0)(x \<mapsto> r)\<rparr>)"
  have run: "createSession_found st0 x (Some s) now rnd = (st4, Inr r)"
    using fresh cached active
    by (simp add: createSession_found_def st0_def st4_def is_stale_def Let_def)
  note c = createSession_with_sid [OF sid found, of now rnd, folded st0_def, unfolded run fst_conv snd_conv]
  show "snd (createSession st (Some x) now rnd) = Inr r" by (rule c(1))
  show "calls (db (fst (createSession st (Some x) now rnd))) = calls (db st) @ [Find (QId (Some x))]"
    unfolding c(2) by (simp add: st4_def st0_def Store_find_calls)
  show "heap (fst (createSession st (Some x) now rnd)) = heap st"
    unfolding c(3) by (simp add: st4_def st0_def)
  show "sessionIndex (fst (createSession st (Some x) now rnd)) x = Some r"
    unfolding c(4) by (simp add: st4_def st0_def)
qed

text \<open>
  The same with a \<open>lastActive\<close> that is unset or older than 10 seconds, on a session that
  is not anonymous: \<open>lastActive\<close> is set to \<open>now\<close> and the session is saved before the
  callback receives it; when the save succeeds the stored record carries \<open>now\<close>.
\<close>

lemma createSession_touches:
  assumes sid: "x \<noteq> []"
      and found: "snd (Store_find (db st) (QId (Some x))) = Inr (Some s)"
      and fresh: "\<not> lt_js (d_lastActive s) (now - maxAge st)"
      and cached: "sessionIndex st x = Some r"
      and idle: "needs_touch (data (heap st r)) now"
  shows "\<exists>st5. data (heap st5 r) = (data (heap st r))\<lparr>d_lastActive := Some now\<rparr>
             \<and> calls (db st5) = calls (db st) @ [Find (QId (Some x))]
             \<and> snd (createSession st (Some x) now rnd) = Inr r
             \<and> db (fst (createSession st (Some x) now rnd)) = db (fst (Session_save st5 r rnd))
             \<and> heap (fst (createSession st (Some x) now rnd)) = heap (fst (Session_save st5 r rnd))
             \<and> (\<forall>res. snd (Session_save st5 r rnd) = Inr res \<longrightarrow>
                   d_lastActive res = Some now
                 \<and> res \<in> set (records (db (fst (createSession st (Some x) now rnd))))
                 \<and> data (heap (fst (createSession st (Some x) now rnd)) r) = res)"
proof -
  define st0 where "st0 = st\<lparr>db := fst (Store_find (db st) (QId (Some x)))\<rparr>"
  define st4 where "st4 = (if truthy_str (d_uid s)
      then st0\<lparr>sessionIndex := (sessionIndex st0)(x \<mapsto> r),
               userSessionIndex := (userSessionIndex st0)(key_of (d_uid s) \<mapsto> r)\<rparr>
      else st0\<lparr>sessionIndex := (sessionIndex st0)(x \<mapsto> r)\<rparr>)"
  define st5 where "st5 = st4\<lparr>heap := (heap st4)(r := (heap st4 r)
                               \<lparr>data := (data (heap st4 r))\<lparr>d_lastActive := Some now\<rparr>\<rparr>)\<rparr>"
  have h4: "heap st4 = heap st" "db st4 = db st0" by (simp_all add: st4_def st0_def)
  have run: "createSession_found st0 x (Some s) now rnd = (fst (Session_save st5 r rnd), Inr r)"
    using fresh cached idle
    by (simp add: createSession_found_def is_stale_def Let_def st0_def [symmetric])
       (simp add: st4_def st5_def st0_def)
  note c = createSession_with_sid [OF sid found, of now rnd, folded st0_def, unfolded run fst_conv snd_conv]
  have d5: "data (heap st5 r) = (data (heap st r))\<lparr>d_lastActive := Some now\<rparr>"
    by (simp add: st5_def h4)
  have c5: "calls (db st5) = calls (db st) @ [Find (QId (Some x))]"
    by (simp add: st5_def h4 st0_def Store_find_calls)
  have not_anon: "\<not> truthy_bool (d_anonymous (data (heap st r)))"
    using idle by (simp add: needs_touch_def)
  have saved: "d_lastActive res = Some now
             \<and> res \<in> set (records (db (fst (Session_save st5 r rnd))))
             \<and> data (heap (fst (Session_save st5 r rnd)) r) = res"
    if ok: "snd (Session_save st5 r rnd) = Inr res" for res
  proof -
    note s = Session_save_success [OF ok]
    have sd: "save_data (data (heap st5 r)) rnd = (data (heap st r))\<lparr>d_lastActive := Some now\<rparr>"
      using not_anon by (simp add: save_data_def d5)
    note i = Store_insert_result [OF s(2)]
    show ?thesis
      using i(1) i(3) s(3) by (simp add: s(4) sd)
  qed
  show ?thesis
    using d5 c5 c(1) c(2) c(3) saved by (intro exI [of _ st5]) simp
qed

section \<open>Facts about \<open>fetch\<close>\<close>

text \<open>
  \<open>fetch\<close> with a record: the record is merged into the data, a field the record does not
  have keeps its value, and the callback receives what the store gave.
\<close>

lemma fetch_cb_merges:
  "fetch_cb st r err (Some d) = (Session_set st r d, Inr (err, d))"
  "data (heap (Session_set st r d) r) = set_data (data (heap st r)) d"
  "d_uid d = None \<Longrightarrow> d_uid (set_data old d) = d_uid old"
  "d_lastActive d = None \<Longrightarrow> d_lastActive (set_data old d) = d_lastActive old"
  "d_anonymous d = None \<Longrightarrow> d_anonymous (set_data old d) = d_anonymous old"
  "d_other d k = None \<Longrightarrow> d_other (set_data old d) k = d_other old k"
  "d_other d k = Some v \<Longrightarrow> d_other (set_data old d) k = Some v"
  by (simp_all add: fetch_cb_def Session_set_def set_data_def merge_fld_def map_add_def)

section \<open>Facts about a session built with its id\<close>

text \<open>
  A session \<open>r\<close> was built for the id \<open>x\<close>, is registered once on the socket queue,
  and no socket is indexed under \<open>x\<close>. Then any sequence \<open>cs\<close> of \<open>on\<close> and \<open>emit\<close>
  calls on its wrapper reaches no socket. When a connection \<open>k\<close> with cookie \<open>x\<close>
  arrives, socket \<open>k\<close> receives, after what the sessions registered earlier under \<open>x\<close>
  had queued and before what the later ones had, the subscribe calls of \<open>r\<close> in their
  order and then its emit calls in their order; \<open>r\<close> is not among those other sessions,
  so its queues are replayed once. After that no listener for \<open>x\<close> is left, and a
  further connection with cookie \<open>x\<close> replays nothing. From then on every call on the
  wrapper goes to socket \<open>k\<close> and changes nothing else; and in any state, a call on a
  wrapper whose id has a socket in the socket index goes to that socket and changes
  nothing else.
\<close>

lemma constructed_session_replay:
  assumes unbound: "socketIndex st (key_of (cl_sid (heap st r))) = None"
      and own: "cl_sid (heap st r) = Some x" and ne: "x \<noteq> []"
      and reg: "(x, r) \<in> set (listeners st)"
      and once: "distinct (map snd (listeners st))"
  shows "let st1 = wrapper_calls st r cs; st2 = connection st1 (Some x) k
         in sockLog st1 = sockLog st
          \<and> (\<exists>l1 l2. filter (\<lambda>l. fst l = x) (listeners st) = l1 @ (x, r) # l2
                \<and> r \<notin> snd ` set (l1 @ l2)
                \<and> sockLog st2 = (sockLog st)(k := sockLog st k
                      @ concat (map (\<lambda>l. drain_calls (heap st (snd l))) l1)
                      @ map SOn (qlist (bindQueue (heap st r)) @ subscribes cs)
                      @ map SEmit (qlist (emitQueue (heap st r)) @ emits cs)
                      @ concat (map (\<lambda>l. drain_calls (heap st (snd l))) l2)))
          \<and> (\<forall>l \<in> set (listeners st2). fst l \<noteq> x)
          \<and> (\<forall>k'. sockLog (connection st2 (Some x) k') = sockLog st2)
          \<and> socketIndex st2 (key_of (cl_sid (heap st2 r))) = Some k
          \<and> (\<forall>c. wrapper_call st2 r c
                   = st2\<lparr>sockLog := (sockLog st2)(k := sockLog st2 k @ [sock_of c])\<rparr>)
          \<and> (\<forall>s r' k' c. socketIndex s (key_of (cl_sid (heap s r'))) = Some k' \<longrightarrow>
                 wrapper_call s r' c
                   = s\<lparr>sockLog := (sockLog s)(k' := sockLog s k' @ [sock_of c])\<rparr>)"
proof -
  define st1 where "st1 = wrapper_calls st r cs"
  define st2 where "st2 = connection st1 (Some x) k"
  define waiting where "waiting = filter (\<lambda>l. fst l = x) (listeners st)"
  define base where "base = st1\<lparr>socketIndex := (socketIndex st1)(x \<mapsto> k),
                       listeners := filter (\<lambda>l. fst l \<noteq> x) (listeners st1)\<rparr>"
  note W = wrapper_calls_unbound [OF unbound, of cs, folded st1_def]
  have lst: "listeners st1 = listeners st" and log1: "sockLog st1 = sockLog st"
    and sidx: "socketIndex st1 = socketIndex st" and cl1: "cl_sid (heap st1 r) = Some x"
    and bq: "qlist (bindQueue (heap st1 r)) = qlist (bindQueue (heap st r)) @ subscribes cs"
    and eq: "qlist (emitQueue (heap st1 r)) = qlist (emitQueue (heap st r)) @ emits cs"
    and others: "\<And>r'. r' \<noteq> r \<Longrightarrow> heap st1 r' = heap st r'"
    using W own by simp_all
  have st2: "st2 = drain_all base waiting k"
    unfolding st2_def base_def waiting_def connection_truthy [OF ne] lst ..
  have "(x, r) \<in> set waiting" using reg by (simp add: waiting_def)
  then obtain l1 l2 where split: "waiting = l1 @ (x, r) # l2"
    by (auto simp: in_set_conv_decomp)
  have "distinct (map snd waiting)"
    unfolding waiting_def using once by (rule distinct_map_filter)
  then have fresh: "r \<notin> snd ` set (l1 @ l2)"
    unfolding split by auto
  have same: "concat (map (\<lambda>l. drain_calls (heap st1 (snd l))) ls)
            = concat (map (\<lambda>l. drain_calls (heap st (snd l))) ls)"
    if "r \<notin> snd ` set ls" for ls
  proof -
    have "map (\<lambda>l. drain_calls (heap st1 (snd l))) ls = map (\<lambda>l. drain_calls (heap st (snd l))) ls"
    proof (intro map_cong refl)
      fix l assume "l \<in> set ls"
      with that have "snd l \<noteq> r" by auto
      then show "drain_calls (heap st1 (snd l)) = drain_calls (heap st (snd l))"
        by (simp add: others)
    qed
    then show ?thesis by (rule arg_cong)
  qed
  have mine: "drain_calls (heap st1 r)
      = map SOn (qlist (bindQueue (heap st r)) @ subscribes cs)
        @ map SEmit (qlist (emitQueue (heap st r)) @ emits cs)"
    unfolding drain_calls_def bq eq ..
  have hb: "heap base = heap st1" "sockLog base = sockLog st"
    by (simp_all add: base_def log1)
  have log2: "sockLog st2 = (sockLog st)(k := sockLog st k
                      @ concat (map (\<lambda>l. drain_calls (heap st (snd l))) l1)
                      @ map SOn (qlist (bindQueue (heap st r)) @ subscribes cs)
                      @ map SEmit (qlist (emitQueue (heap st r)) @ emits cs)
                      @ concat (map (\<lambda>l. drain_calls (heap st (snd l))) l2))"
  proof -
    have l1: "r \<notin> snd ` set l1" and l2: "r \<notin> snd ` set l2" using fresh by auto
    show ?thesis
      unfolding st2 drain_all_log hb split
      by (simp add: same [OF l1] same [OF l2] mine)
  qed
  have lst2: "listeners st2 = filter (\<lambda>l. fst l \<noteq> x) (listeners st)"
    unfolding st2 drain_all_frame by (simp add: base_def lst)
  then have oneshot: "\<forall>l \<in> set (listeners st2). fst l \<noteq> x" by simp
  have none_left: "filter (\<lambda>l. fst l = x) (listeners st2) = []"
    unfolding lst2 by (simp add: filter_empty_conv)
  have again: "sockLog (connection st2 (Some x) k') = sockLog st2" for k'
    unfolding connection_truthy [OF ne] none_left by simp
  have bound: "socketIndex st2 (key_of (cl_sid (heap st2 r))) = Some k"
    unfolding st2 drain_all_frame by (simp add: base_def cl1 key_of_def)
  have pass: "wrapper_call st2 r c = st2\<lparr>sockLog := (sockLog st2)(k := sockLog st2 k @ [sock_of c])\<rparr>"
    for c
    by (rule wrapper_call_bound [OF bound])
  have split': "filter (\<lambda>l. fst l = x) (listeners st) = l1 @ (x, r) # l2"
    using split by (simp add: waiting_def)
  show ?thesis
    unfolding Let_def st1_def [symmetric] st2_def [symmetric]
    using log1 split' fresh log2 oneshot again bound pass wrapper_call_bound
    by blast
qed

text \<open>
  In \<open>ex_wait\<close> the calls are \<open>on A\<close>, \<open>emit X\<close>, \<open>on B\<close>, \<open>emit Y\<close>; socket 7 receives
  \<open>A\<close>, \<open>B\<close>, \<open>X\<close>, \<open>Y\<close>, and a later \<open>emit Z\<close> directly.
\<close>

lemma constructed_session_replay_example:
  "socketIndex ex_wait (key_of (cl_sid (heap ex_wait 0))) = None
   \<and> cl_sid (heap ex_wait 0) = Some ''abc''
   \<and> (''abc'', 0) \<in> set (listeners ex_wait)
   \<and> distinct (map snd (listeners ex_wait))
   \<and> sockLog (connection (wrapper_calls ex_wait 0 ex_calls) (Some ''abc'') 7) 7
        = [SOn [''A''], SOn [''B''], SEmit [''X''], SEmit [''Y'']]
   \<and> (\<forall>k'. sockLog (connection (connection (wrapper_calls ex_wait 0 ex_calls) (Some ''abc'') 7)
                         (Some ''abc'') k')
             = sockLog (connection (wrapper_calls ex_wait 0 ex_calls) (Some ''abc'') 7))
   \<and> wrapper_call (connection (wrapper_calls ex_wait 0 ex_calls) (Some ''abc'') 7) 0 (WEmit [''Z''])
        = (connection (wrapper_calls ex_wait 0 ex_calls) (Some ''abc'') 7)
            \<lparr>sockLog := (sockLog (connection (wrapper_calls ex_wait 0 ex_calls) (Some ''abc'') 7))
               (7 := [SOn [''A''], SOn [''B''], SEmit [''X''], SEmit [''Y''], SEmit [''Z'']])\<rparr>"
proof -
  have st: "listeners ex_wait = [(''abc'', 0)]" "cl_sid (heap ex_wait 0) = Some ''abc''"
    "socketIndex ex_wait = Map.empty" "bindQueue (heap ex_wait 0) = None"
    "emitQueue (heap ex_wait 0) = None" "sockLog ex_wait = (\<lambda>_. [])"
    by (simp_all add: ex_wait_def new_Session_def example_defs truthy_defs Let_def)
  have h1: "socketIndex ex_wait (key_of (cl_sid (heap ex_wait 0))) = None"
    and h3: "''abc'' \<noteq> []" and h4: "(''abc'', 0) \<in> set (listeners ex_wait)"
    and h5: "distinct (map snd (listeners ex_wait))"
    by (simp_all add: st)
  note t = constructed_session_replay [OF h1 st(2) h3 h4 h5, of ex_calls 7, unfolded Let_def]
  define st2 where "st2 = connection (wrapper_calls ex_wait 0 ex_calls) (Some ''abc'') 7"
  from t obtain l1 l2 where
    split: "filter (\<lambda>l. fst l = ''abc'') (listeners ex_wait) = l1 @ (''abc'', 0) # l2"
    and log: "sockLog st2 = (sockLog ex_wait)(7 := sockLog ex_wait 7
                      @ concat (map (\<lambda>l. drain_calls (heap ex_wait (snd l))) l1)
                      @ map SOn (qlist (bindQueue (heap ex_wait 0)) @ subscribes ex_calls)
                      @ map SEmit (qlist (emitQueue (heap ex_wait 0)) @ emits ex_calls)
                      @ concat (map (\<lambda>l. drain_calls (heap ex_wait (snd l))) l2))"
    unfolding st2_def by blast
  from split have "l1 = []" "l2 = []"
    by (simp_all add: st append_eq_Cons_conv Cons_eq_append_conv)
  with log have log7: "sockLog st2 7 = [SOn [''A''], SOn [''B''], SEmit [''X''], SEmit [''Y'']]"
    by (simp add: st qlist_def ex_calls_def)
  from t have again: "\<forall>k'. sockLog (connection st2 (Some ''abc'') k') = sockLog st2"
    unfolding st2_def by blast
  from t have "wrapper_call st2 0 (WEmit [''Z''])
      = st2\<lparr>sockLog := (sockLog st2)(7 := sockLog st2 7 @ [sock_of (WEmit [''Z''])])\<rparr>"
    unfolding st2_def by blast
  then have pass: "wrapper_call st2 0 (WEmit [''Z''])
      = st2\<lparr>sockLog := (sockLog st2)
               (7 := [SOn [''A''], SOn [''B''], SEmit [''X''], SEmit [''Y''], SEmit [''Z'']])\<rparr>"
    by (simp add: log7)
  show ?thesis
    unfolding st2_def [symmetric] using h1 st(2) h4 h5 log7 again pass by blast
qed

section \<open>A record without \<open>lastActive\<close>\<close>

text \<open>
  C1. The claim: a session id whose record is absent, older than \<open>maxAge\<close> or without
  \<open>lastActive\<close> gives an anonymous session. The staleness test of \<open>createSession\<close> is
  \<open>s.lastActive < Date.now() - maxAge\<close>, which is false when \<open>lastActive\<close> is
  \<open>undefined\<close>. In \<open>ex_old\<close> the store holds \<open>abc\<close> without \<open>lastActive\<close>:
  \<open>createSession\<close> at time 1000000 delivers object 0, whose data is that record with
  \<open>lastActive\<close> filled in by the constructor; it keeps the id \<open>abc\<close>, is not anonymous,
  and is entered in the session index under \<open>abc\<close>.
\<close>

theorem createSession_keeps_record_without_lastActive:
  "find (matches (QId (Some ''abc''))) (records (db ex_old)) = Some ex_legacy
   \<and> d_lastActive ex_legacy = None
   \<and> snd (createSession ex_old (Some ''abc'') 1000000 []) = Inr 0
   \<and> data (heap (fst (createSession ex_old (Some ''abc'') 1000000 [])) 0)
        = ex_legacy\<lparr>d_lastActive := Some 1000000\<rparr>
   \<and> d_id (data (heap (fst (createSession ex_old (Some ''abc'') 1000000 [])) 0)) = Some ''abc''
   \<and> \<not> truthy_bool (Session_isAnonymous (fst (createSession ex_old (Some ''abc'') 1000000 [])) 0)
   \<and> sessionIndex (fst (createSession ex_old (Some ''abc'') 1000000 [])) ''abc'' = Some 0"
  by (simp add: run_defs example_defs ex_old_def ex_legacy_def truthy_defs store_defs
        Session_isAnonymous_def)

section \<open>The binding queue\<close>

text \<open>
  C2. The claim: for every session, the calls queued on its wrapper are replayed, the
  subscribes and then the emits, when a connection with the session's id attaches, and
  later calls pass through. The constructor fixes the id the wrapper looks up and the
  event the \<open>once\<close> listener waits for; \<open>save\<close> sets \<open>session.sid\<close> and the session
  index entry, and neither of those two. In \<open>ex_anon\<close> object 0 is anonymous. Its
  \<open>save\<close> succeeds: its data, its \<open>sid\<close> and the session index carry the new id, while
  the wrapper still looks up \<open>undefined\<close> and the listener still waits for \<open>undefined\<close>.
  The calls \<open>on A\<close>, \<open>emit X\<close>, \<open>on B\<close>, \<open>emit Y\<close> are queued. A connection with the
  new id as cookie enters socket 7 in the socket index under that id, and socket 7
  receives nothing; the listener stays. A later \<open>emit Z\<close> is queued as well.
\<close>

theorem saved_session_never_binds:
  "let I = createUniqueIdentifier ex_bytes;
       st1 = fst (Session_save ex_anon 0 ex_bytes);
       st2 = wrapper_calls st1 0 ex_calls;
       st3 = connection st2 (Some I) 7;
       st4 = wrapper_emit st3 0 [''Z'']
   in snd (Session_save ex_anon 0 ex_bytes) = Inr ex_saved
    \<and> d_id (data (heap st1 0)) = Some I
    \<and> sid (heap st1 0) = Some I
    \<and> sessionIndex st1 I = Some 0
    \<and> cl_sid (heap st1 0) = None
    \<and> listeners st1 = [(''undefined'', 0)]
    \<and> sockLog st2 = (\<lambda>_. [])
    \<and> qlist (bindQueue (heap st2 0)) = [[''A''], [''B'']]
    \<and> qlist (emitQueue (heap st2 0)) = [[''X''], [''Y'']]
    \<and> socketIndex st3 I = Some 7
    \<and> sockLog st3 = (\<lambda>_. [])
    \<and> listeners st3 = [(''undefined'', 0)]
    \<and> sockLog st4 = (\<lambda>_. [])
    \<and> qlist (emitQueue (heap st4 0)) = [[''X''], [''Y''], [''Z'']]"
proof -
  define I where "I = createUniqueIdentifier ex_bytes"
  define st1 where "st1 = fst (Session_save ex_anon 0 ex_bytes)"
  define st2 where "st2 = wrapper_calls st1 0 ex_calls"
  define st3 where "st3 = connection st2 (Some I) 7"
  define st4 where "st4 = wrapper_emit st3 0 [''Z'']"
  have len: "length I = 128"
    by (simp add: I_def createUniqueIdentifier_length ex_bytes_def)
  then have ne: "I \<noteq> []" by auto
  have "length ''undefined'' \<noteq> length I" unfolding len by simp
  then have other: "''undefined'' \<noteq> I" by (rule contrapos_nn) simp
  have a0: "cl_sid (heap ex_anon 0) = None" "bindQueue (heap ex_anon 0) = None"
    "emitQueue (heap ex_anon 0) = None" "sockLog ex_anon = (\<lambda>_. [])"
    "listeners ex_anon = [(''undefined'', 0)]" "socketIndex ex_anon = Map.empty"
    "truthy_bool (d_anonymous (data (heap ex_anon 0)))"
    by (simp_all add: new_Session_def example_defs truthy_defs Let_def)
  have ok: "snd (Session_save ex_anon 0 ex_bytes) = Inr ex_saved"
    using ne [unfolded I_def]
    by (simp add: Session_save_def save_data_def save_sid_def Session_remove_def remove_target_def
        new_Session_def example_defs truthy_defs store_defs ex_saved_def Let_def)
  note ix = Session_save_indexes [OF ok, folded st1_def]
  have d1: "data (heap st1 0) = ex_saved" by (rule ix(5))
  have id1: "d_id (data (heap st1 0)) = Some I" by (simp add: d1 ex_saved_def I_def)
  have sid1: "sid (heap st1 0) = Some I" by (simp add: ix(6) ex_saved_def I_def)
  have six1: "sessionIndex st1 I = Some 0"
    using ix(1) ix(2) [OF a0(7)] by (simp add: key_of_def I_def)
  have w1: "cl_sid (heap st1 0) = None" "bindQueue (heap st1 0) = None"
    "emitQueue (heap st1 0) = None" "sockLog st1 = (\<lambda>_. [])"
    by (simp_all add: st1_def Session_save_wrapper a0)
  have l1: "listeners st1 = [(''undefined'', 0)]"
    by (simp add: st1_def Session_save_listeners a0)
  have sd: "save_data (data (heap ex_anon 0)) ex_bytes
              = (data (heap ex_anon 0))\<lparr>d_anonymous := None, d_id := Some I\<rparr>"
    using a0(7) by (simp add: save_data_def I_def)
  have so1: "socketIndex st1 = Map.empty"
    unfolding st1_def Session_save_socketIndex sd
    using ne by (simp add: Session_remove_def remove_target_def truthy_str_def Let_def split_beta a0)
  have unb1: "socketIndex st1 (key_of (cl_sid (heap st1 0))) = None"
    by (simp add: so1)
  note W = wrapper_calls_unbound [OF unb1, of ex_calls, folded st2_def]
  have s2: "socketIndex st2 = Map.empty" "listeners st2 = [(''undefined'', 0)]"
    "sockLog st2 = (\<lambda>_. [])" "cl_sid (heap st2 0) = None"
    "qlist (bindQueue (heap st2 0)) = [[''A''], [''B'']]"
    "qlist (emitQueue (heap st2 0)) = [[''X''], [''Y'']]"
    using W by (simp_all add: so1 l1 w1 qlist_def ex_calls_def)
  have st3: "st3 = st2\<lparr>socketIndex := (socketIndex st2)(I \<mapsto> 7)\<rparr>"
    unfolding st3_def connection_truthy [OF ne] using other by (simp add: s2)
  have s3: "socketIndex st3 I = Some 7" "sockLog st3 = (\<lambda>_. [])"
    "listeners st3 = [(''undefined'', 0)]"
    by (simp_all add: st3 s2)
  have unb3: "socketIndex st3 (key_of (cl_sid (heap st3 0))) = None"
    using other by (simp add: st3 s2 key_of_def)
  have s4: "sockLog st4 = (\<lambda>_. [])"
    "qlist (emitQueue (heap st4 0)) = [[''X''], [''Y''], [''Z'']]"
    unfolding st4_def wrapper_emit_unbound [OF unb3]
    by (simp_all add: s3 st3 s2 qlist_Some)
  show ?thesis
    unfolding Let_def I_def [symmetric] st1_def [symmetric] st2_def [symmetric]
      st3_def [symmetric] st4_def [symmetric]
    using ok id1 sid1 six1 w1(1) l1 s2(3,5,6) s3 s4 by simp
qed

section \<open>Two calls of \<open>createSession\<close> in a row\<close>

text \<open>
  C3. The claim: of two \<open>createSession\<close> calls for the same fresh id within 10 seconds
  at most one writes, and the second returns the cached \<open>Session\<close> object. In \<open>ex_live\<close>
  object 0 is cached under \<open>abc\<close> and was last active 60 seconds ago. The first call, at
  time 1000000, delivers object 0 and writes (one \<open>remove\<close>, one \<open>insert\<close>); the \<open>remove\<close>
  inside \<open>save\<close> deletes the entry \<open>abc\<close> of the session index, and \<open>save\<close> puts
  object 0 back under the key \<open>undefined\<close>. The second call, 5 seconds later, issues no
  write, but finds nothing cached under \<open>abc\<close> and builds a new object, 2.
\<close>

theorem second_createSession_builds_new_object:
  "let (st1, r1) = createSession ex_live (Some ''abc'') 1000000 [];
       (st2, r2) = createSession st1 (Some ''abc'') 1005000 []
   in sessionIndex ex_live ''abc'' = Some 0
    \<and> r1 = Inr 0
    \<and> calls (db st1) = [Find (QId (Some ''abc'')), Remove (QId (Some ''abc'')),
                         Insert (ex_rec\<lparr>d_lastActive := Some 1000000\<rparr>)]
    \<and> sessionIndex st1 ''abc'' = None
    \<and> sessionIndex st1 ''undefined'' = Some 0
    \<and> nextRef st1 = 2
    \<and> r2 = Inr 2
    \<and> nextRef st2 = 3
    \<and> calls (db st2) = calls (db st1) @ [Find (QId (Some ''abc''))]"
  by (simp add: run_defs example_defs truthy_defs store_defs)

section \<open>The session index after \<open>save\<close>\<close>

text \<open>
  C4. The claim: after a successful \<open>save\<close> the session index maps the saved record's
  id to the session. In \<open>ex_live\<close> object 0 has the id \<open>abc\<close> and is in the session
  index. Its \<open>save\<close> succeeds and returns the record with id \<open>abc\<close>; afterwards the
  session index has no entry \<open>abc\<close>, and object 0 stands under the key \<open>undefined\<close>,
  since the variable \<open>sid\<close> of \<open>save\<close> is only assigned for an anonymous session.
\<close>

theorem save_loses_session_index_entry:
  "sessionIndex ex_live ''abc'' = Some 0
   \<and> snd (Session_save ex_live 0 []) = Inr ex_rec
   \<and> d_id ex_rec = Some ''abc''
   \<and> sessionIndex (fst (Session_save ex_live 0 [])) ''abc'' = None
   \<and> sessionIndex (fst (Session_save ex_live 0 [])) ''undefined'' = Some 0"
  by (simp add: Session_save_def save_data_def save_sid_def Session_remove_def remove_target_def
        example_defs truthy_defs store_defs Let_def)

section \<open>Saving an anonymous session\<close>

text \<open>
  C5. When an anonymous session is saved with the 64 bytes \<open>crypto.randomBytes\<close> gave and
  the callback receives a record, that record is the session's data with \<open>anonymous\<close>
  deleted and \<open>id\<close> set to the new identifier: 128 hexadecimal digits that encode those
  bytes, and that no other bytes encode to. The session's data is that record, the store
  holds it, and \<open>isAnonymous()\<close> is falsy.
\<close>

theorem save_anonymous_assigns_id:
  assumes anon: "truthy_bool (d_anonymous (data (heap st r)))"
      and bytes: "length rnd = 64"
      and ok: "snd (Session_save st r rnd) = Inr res"
  shows "res = (data (heap st r))\<lparr>d_anonymous := None, d_id := Some (createUniqueIdentifier rnd)\<rparr>
       \<and> length (createUniqueIdentifier rnd) = 128
       \<and> set (createUniqueIdentifier rnd) \<subseteq> set ''0123456789abcdef''
       \<and> (\<forall>rnd'. createUniqueIdentifier rnd' = createUniqueIdentifier rnd \<longrightarrow> rnd' = rnd)
       \<and> d_id res = Some (createUniqueIdentifier rnd)
       \<and> d_anonymous res = None
       \<and> data (heap (fst (Session_save st r rnd)) r) = res
       \<and> res \<in> set (records (db (fst (Session_save st r rnd))))
       \<and> \<not> truthy_bool (Session_isAnonymous (fst (Session_save st r rnd)) r)"
proof -
  define d where "d = save_data (data (heap st r)) rnd"
  have d: "d = (data (heap st r))\<lparr>d_anonymous := None, d_id := Some (createUniqueIdentifier rnd)\<rparr>"
    using anon by (simp add: d_def save_data_def)
  have len: "length (createUniqueIdentifier rnd) = 128"
    using bytes by (simp add: createUniqueIdentifier_length)
  then have "createUniqueIdentifier rnd \<noteq> []" by auto
  then have id: "truthy_str (d_id d)" by (simp add: d truthy_str_def)
  note s = Session_save_success [OF ok, folded d_def]
  have res: "res = d" by (rule Store_insert_with_id(1) [OF id s(2)])
  have stored: "res \<in> set (records (db (fst (Session_save st r rnd))))"
    unfolding s(4) Store_insert_with_id(2) [OF id s(2)] res by simp
  have inj: "\<forall>rnd'. createUniqueIdentifier rnd' = createUniqueIdentifier rnd \<longrightarrow> rnd' = rnd"
    using createUniqueIdentifier_inj by blast
  show ?thesis
    using res d len createUniqueIdentifier_hex [of rnd] inj s(3) stored
    by (simp add: Session_isAnonymous_def truthy_bool_def)
qed

theorem save_anonymous_assigns_id_witness:
  "truthy_bool (d_anonymous (data (heap ex_anon 0)))
   \<and> length ex_bytes = 64
   \<and> snd (Session_save ex_anon 0 ex_bytes) = Inr ex_saved
   \<and> d_id ex_saved = Some (createUniqueIdentifier ex_bytes)
   \<and> length (createUniqueIdentifier ex_bytes) = 128
   \<and> d_anonymous ex_saved = None
   \<and> data (heap (fst (Session_save ex_anon 0 ex_bytes)) 0) = ex_saved
   \<and> \<not> truthy_bool (Session_isAnonymous (fst (Session_save ex_anon 0 ex_bytes)) 0)"
proof -
  have a: "truthy_bool (d_anonymous (data (heap ex_anon 0)))"
    by (simp add: new_Session_def example_defs truthy_defs)
  have b: "length ex_bytes = 64" by (simp add: ex_bytes_def)
  have "length (createUniqueIdentifier ex_bytes) = 128"
    by (simp add: createUniqueIdentifier_length b)
  then have ne: "createUniqueIdentifier ex_bytes \<noteq> []" by auto
  have c: "snd (Session_save ex_anon 0 ex_bytes) = Inr ex_saved"
    using ne
    by (simp add: Session_save_def save_data_def save_sid_def Session_remove_def remove_target_def
        new_Session_def example_defs truthy_defs store_defs ex_saved_def Let_def)
  show ?thesis
    using a b c save_anonymous_assigns_id [OF a b c] by simp
qed

section \<open>Removing a session that has an id\<close>

text \<open>
  C6. When the data \<open>remove\<close> is aimed at has an id, the call deletes the entry of that id
  from the session index and from the socket index, and the entry of the data's uid from
  the user index, whatever object that entry held; nothing else in the three indexes
  changes. The store receives one \<open>remove\<close> for \<open>{id: ...}\<close>. Afterwards \<open>getSession\<close> of
  that uid gives nothing, and when the store reported no error it holds no record with
  that id, so that a lookup by that id returns no record.
\<close>

theorem remove_purges:
  assumes "truthy_str (d_id (remove_target st r darg))"
  shows "let d = remove_target st r darg;
             st' = fst (Session_remove st r darg);
             err = snd (Session_remove st r darg)
         in sessionIndex st' = (sessionIndex st)(key_of (d_id d) := None)
          \<and> userSessionIndex st' = (userSessionIndex st)(key_of (d_uid d) := None)
          \<and> socketIndex st' = (socketIndex st)(key_of (d_id d) := None)
          \<and> calls (db st') = calls (db st) @ [Remove (QId (d_id d))]
          \<and> getSession st' (d_uid d) = None
          \<and> (err = None \<longrightarrow>
               (\<forall>rec \<in> set (records (db st')). d_id rec \<noteq> d_id d)
             \<and> (\<forall>rec. snd (Store_first (db st') (QId (d_id d))) \<noteq> Inr (Some rec)))"
proof -
  define d where "d = remove_target st r darg"
  define st1 where "st1 = st\<lparr>sessionIndex := (sessionIndex st)(key_of (d_id d) := None),
                         userSessionIndex := (userSessionIndex st)(key_of (d_uid d) := None),
                         socketIndex := (socketIndex st)(key_of (d_id d) := None)\<rparr>"
  define out where "out = Store_remove (db st) (QId (d_id d))"
  have run: "Session_remove st r darg = (st1\<lparr>db := fst out\<rparr>, snd out)"
    using assms by (simp add: Session_remove_def d_def st1_def out_def Let_def split_beta)
  have gone: "\<forall>rec \<in> set (records (fst out)). d_id rec \<noteq> d_id d" if "snd out = None"
    using Store_remove_ok_records [OF that [unfolded out_def]] by (simp add: out_def)
  have absent: "snd out = None \<longrightarrow>
      (\<forall>rec. snd (Store_first (fst out) (QId (d_id d))) \<noteq> Inr (Some rec))"
  proof (intro impI allI notI)
    fix rec
    assume ok: "snd out = None"
      and hit: "snd (Store_first (fst out) (QId (d_id d))) = Inr (Some rec)"
    from hit have "find (matches (QId (d_id d))) (records (fst out)) = Some rec"
      by (rule Store_first_result)
    then show False
      using Store_remove_ok_records [OF ok [unfolded out_def]]
      by (simp add: out_def find_None_iff [THEN iffD2])
  qed
  have trace: "calls (fst out) = calls (db st) @ [Remove (QId (d_id d))]"
    by (simp add: out_def Store_remove_calls)
  have idx: "sessionIndex (st1\<lparr>db := fst out\<rparr>) = (sessionIndex st)(key_of (d_id d) := None)"
    "userSessionIndex (st1\<lparr>db := fst out\<rparr>) = (userSessionIndex st)(key_of (d_uid d) := None)"
    "socketIndex (st1\<lparr>db := fst out\<rparr>) = (socketIndex st)(key_of (d_id d) := None)"
    "getSession (st1\<lparr>db := fst out\<rparr>) (d_uid d) = None"
    "db (st1\<lparr>db := fst out\<rparr>) = fst out"
    by (simp_all add: st1_def getSession_def)
  show ?thesis
    unfolding Let_def d_def [symmetric] run fst_conv snd_conv idx
    using gone absent trace by simp
qed

text \<open>
  In \<open>ex_live\<close> object 0 is removed; the user index held object 1 for its uid, and that
  entry goes too.
\<close>

theorem remove_purges_witness:
  "truthy_str (d_id (remove_target ex_live 0 None))
   \<and> userSessionIndex ex_live ''u1'' = Some 1
   \<and> snd (Session_remove ex_live 0 None) = None
   \<and> sessionIndex (fst (Session_remove ex_live 0 None)) ''abc'' = None
   \<and> socketIndex (fst (Session_remove ex_live 0 None)) ''abc'' = None
   \<and> getSession (fst (Session_remove ex_live 0 None)) (Some ''u1'') = None
   \<and> calls (db (fst (Session_remove ex_live 0 None))) = [Remove (QId (Some ''abc''))]
   \<and> (\<forall>rec. snd (Store_first (db (fst (Session_remove ex_live 0 None))) (QId (Some ''abc'')))
              \<noteq> Inr (Some rec))"
proof -
  have hasid: "truthy_str (d_id (remove_target ex_live 0 None))"
    by (simp add: remove_target_def example_defs truthy_defs)
  have tgt: "remove_target ex_live 0 None = ex_rec"
    by (simp add: remove_target_def example_defs)
  have ok: "snd (Session_remove ex_live 0 None) = None"
    by (simp add: Session_remove_def remove_target_def example_defs truthy_defs store_defs)
  have before: "userSessionIndex ex_live ''u1'' = Some 1" "calls (db ex_live) = []"
    "sessionIndex ex_live ''abc'' = Some 0"
    by (simp_all add: example_defs)
  have flds: "d_id ex_rec = Some ''abc''" "d_uid ex_rec = Some ''u1''"
    by (simp_all add: ex_rec_def)
  show ?thesis
    using hasid before(1) remove_purges [OF hasid, unfolded Let_def tgt ok flds before(2)]
    by (simp add: key_of_def ok)
qed

section \<open>The sweep\<close>

text \<open>
  C7. Every call of \<open>cleanupInactiveSessions\<close> sends the store one \<open>remove\<close> whose query
  selects exactly the records whose \<open>lastActive\<close> is missing or older than \<open>now - maxAge\<close>.
  When the store reports an error, the message goes to \<open>console.error\<close> and the records
  stay; nothing but the store, the console and the time of the last run changes, and the
  function has no result through which the error could reach a caller. The time of the
  last run is set to \<open>now\<close> in both cases.
\<close>

theorem sweep_is_best_effort:
  "let q = sweep_query st now;
       err = snd (Store_remove (db st) q);
       st' = cleanupInactiveSessions st now
   in calls (db st') = calls (db st) @ [Remove q]
    \<and> (\<forall>rec. matches q rec =
               (case d_lastActive rec of None \<Rightarrow> True | Some t \<Rightarrow> t < now - maxAge st))
    \<and> records (db st') =
        (if err = None then filter (\<lambda>rec. \<not> matches q rec) (records (db st))
         else records (db st))
    \<and> console st' = console st @
        (case err of None \<Rightarrow> [] | Some e \<Rightarrow> [''Error removing old sessions: '' @ e])
    \<and> lastRun st' = Some now
    \<and> st' = st\<lparr>db := db st', console := console st', lastRun := Some now\<rparr>"
proof -
  define q where "q = sweep_query st now"
  define out where "out = Store_remove (db st) q"
  have run: "cleanupInactiveSessions st now =
      st\<lparr>db := fst out,
         console := console st @
           (case snd out of None \<Rightarrow> [] | Some e \<Rightarrow> [''Error removing old sessions: '' @ e]),
         lastRun := Some now\<rparr>"
    by (simp add: cleanupInactiveSessions_def q_def out_def split_beta)
  have sel: "matches q rec = (case d_lastActive rec of None \<Rightarrow> True | Some t \<Rightarrow> t < now - maxAge st)"
    for rec
    by (simp add: q_def sweep_query_def split: option.splits)
  have recs: "records (fst out) =
      (if snd out = None then filter (\<lambda>rec. \<not> matches q rec) (records (db st)) else records (db st))"
    by (cases "snd out") (simp_all add: out_def Store_remove_ok_records Store_remove_err_records)
  show ?thesis
    unfolding Let_def q_def [symmetric] out_def [symmetric] run
    using sel recs by (simp add: out_def Store_remove_calls)
qed

text \<open>A sweep at time 5000 against a store that fails: logged, records kept, time set.\<close>

theorem sweep_is_best_effort_witness:
  "snd (Store_remove (db ex_faulty) (sweep_query ex_faulty 5000)) = Some ''disk full''
   \<and> console (cleanupInactiveSessions ex_faulty 5000)
       = [''Error removing old sessions: disk full'']
   \<and> records (db (cleanupInactiveSessions ex_faulty 5000)) = [ex_rec]
   \<and> lastRun ex_faulty = None
   \<and> lastRun (cleanupInactiveSessions ex_faulty 5000) = Some 5000"
proof -
  have err: "snd (Store_remove (db ex_faulty) (sweep_query ex_faulty 5000)) = Some ''disk full''"
    by (simp add: example_defs store_defs sweep_query_def)
  have before: "console ex_faulty = []" "records (db ex_faulty) = [ex_rec]"
    "lastRun ex_faulty = None"
    by (simp_all add: ex_faulty_def SessionStore_def ex_db_def)
  show ?thesis
    using sweep_is_best_effort [of ex_faulty 5000, unfolded Let_def err before] err before(3)
    by simp
qed

section \<open>\<open>fetch\<close> and a store error\<close>

text \<open>
  C8. The claim: \<open>fetch\<close> merges the record into the data and hands any store error to
  the callback. In \<open>ex_live_faulty\<close> the store answers the \<open>first\<close> of \<open>fetch\<close> with the
  error \<open>disk full\<close> and no record. The callback of \<open>fetch\<close> calls \<open>session.set(data)\<close>
  before \<open>fn(err, data)\<close>; \<open>Object.keys\<close> of no data throws, so the call ends in a
  \<open>TypeError\<close> and \<open>fn\<close> never receives the error.
\<close>

theorem fetch_error_never_reaches_callback:
  "snd (Store_first (db ex_live_faulty) (QId (d_id (data (heap ex_live_faulty 0)))))
     = Inl ''disk full''
   \<and> snd (Session_fetch ex_live_faulty 0) = Inl TypeError
   \<and> heap (fst (Session_fetch ex_live_faulty 0)) = heap ex_live_faulty"
  by (simp add: Session_fetch_def fetch_cb_def example_defs store_defs)

section \<open>Removing a session that has no id\<close>

text \<open>
  C9. When the data \<open>remove\<close> is aimed at has no id (the field is absent or empty), the
  callback fires at once with no error, and the state is the one before the call: no
  index entry is changed and the store receives no call.
\<close>

theorem remove_without_id_is_noop:
  assumes "\<not> truthy_str (d_id (remove_target st r darg))"
  shows "Session_remove st r darg = (st, None)"
  using assms by (simp add: Session_remove_def)

theorem remove_without_id_is_noop_witness:
  "\<not> truthy_str (d_id (remove_target ex_anon 0 None))
   \<and> Session_remove ex_anon 0 None = (ex_anon, None)"
proof -
  have noid: "\<not> truthy_str (d_id (remove_target ex_anon 0 None))"
    by (simp add: remove_target_def new_Session_def example_defs truthy_defs)
  from noid remove_without_id_is_noop [OF noid] show ?thesis by simp
qed

section \<open>\<open>save\<close> and the socket index\<close>

text \<open>
  C10. When the data \<open>save\<close> stores has an id \<open>x\<close> (the session's own, or the fresh one
  of an anonymous session), the \<open>remove\<close> inside \<open>save\<close> deletes the entry \<open>x\<close> of the
  socket index, and the rest of \<open>save\<close> leaves the socket index as \<open>remove\<close> left it,
  whether the insert succeeds or not. For a session whose wrapper was built for that id:
  a socket \<open>k\<close> indexed under \<open>x\<close> before the \<open>save\<close> received every \<open>on\<close> and \<open>emit\<close>;
  after the \<open>save\<close> every \<open>on\<close> and \<open>emit\<close> is pushed on the queues and no socket
  receives anything.
\<close>

theorem save_unbinds_socket:
  assumes "truthy_str (d_id (save_data (data (heap st r)) rnd))"
  shows "let d = save_data (data (heap st r)) rnd;
             x = key_of (d_id d);
             st1 = fst (Session_remove st r (Some d));
             st' = fst (Session_save st r rnd)
         in socketIndex st1 = (socketIndex st)(x := None)
          \<and> socketIndex st' = socketIndex st1
          \<and> socketIndex st' x = None
          \<and> (cl_sid (heap st r) = d_id d \<longrightarrow>
               (\<forall>k a. socketIndex st x = Some k \<longrightarrow>
                   wrapper_on st r a = st\<lparr>sockLog := (sockLog st)(k := sockLog st k @ [SOn a])\<rparr>
                 \<and> wrapper_emit st r a = st\<lparr>sockLog := (sockLog st)(k := sockLog st k @ [SEmit a])\<rparr>)
             \<and> (\<forall>a. wrapper_on st' r a = st'\<lparr>heap := (heap st')(r := (heap st' r)
                          \<lparr>bindQueue := Some (qlist (bindQueue (heap st r)) @ [a])\<rparr>)\<rparr>
                   \<and> wrapper_emit st' r a = st'\<lparr>heap := (heap st')(r := (heap st' r)
                          \<lparr>emitQueue := Some (qlist (emitQueue (heap st r)) @ [a])\<rparr>)\<rparr>
                   \<and> sockLog (wrapper_on st' r a) = sockLog st
                   \<and> sockLog (wrapper_emit st' r a) = sockLog st))"
proof -
  define d where "d = save_data (data (heap st r)) rnd"
  define x where "x = key_of (d_id d)"
  define st1 where "st1 = fst (Session_remove st r (Some d))"
  define st' where "st' = fst (Session_save st r rnd)"
  have id: "truthy_str (d_id d)" using assms by (simp add: d_def)
  have del: "socketIndex st1 = (socketIndex st)(x := None)"
    using id by (simp add: st1_def x_def Session_remove_def remove_target_def Let_def split_beta)
  have keep: "socketIndex st' = socketIndex st1"
    by (simp add: st'_def st1_def d_def Session_save_socketIndex)
  have gone: "socketIndex st' x = None" by (simp add: keep del)
  have w: "cl_sid (heap st' r) = cl_sid (heap st r)"
    "bindQueue (heap st' r) = bindQueue (heap st r)"
    "emitQueue (heap st' r) = emitQueue (heap st r)" "sockLog st' = sockLog st"
    by (simp_all add: st'_def Session_save_wrapper)
  have before: "wrapper_on st r a = st\<lparr>sockLog := (sockLog st)(k := sockLog st k @ [SOn a])\<rparr>
      \<and> wrapper_emit st r a = st\<lparr>sockLog := (sockLog st)(k := sockLog st k @ [SEmit a])\<rparr>"
    if "cl_sid (heap st r) = d_id d" "socketIndex st x = Some k" for k a
    using that by (simp add: wrapper_on_bound wrapper_emit_bound x_def)
  have after: "wrapper_on st' r a = st'\<lparr>heap := (heap st')(r := (heap st' r)
                          \<lparr>bindQueue := Some (qlist (bindQueue (heap st r)) @ [a])\<rparr>)\<rparr>
      \<and> wrapper_emit st' r a = st'\<lparr>heap := (heap st')(r := (heap st' r)
                          \<lparr>emitQueue := Some (qlist (emitQueue (heap st r)) @ [a])\<rparr>)\<rparr>
      \<and> sockLog (wrapper_on st' r a) = sockLog st
      \<and> sockLog (wrapper_emit st' r a) = sockLog st"
    if own: "cl_sid (heap st r) = d_id d" for a
  proof -
    have unb: "socketIndex st' (key_of (cl_sid (heap st' r))) = None"
      using gone by (simp add: w own x_def)
    show ?thesis
      by (simp add: wrapper_on_unbound [OF unb] wrapper_emit_unbound [OF unb] w)
  qed
  show ?thesis
    unfolding Let_def d_def [symmetric] x_def [symmetric] st1_def [symmetric] st'_def [symmetric]
    using del keep gone before after by blast
qed

theorem save_unbinds_socket_witness:
  "truthy_str (d_id (save_data (data (heap ex_live 0)) []))
   \<and> cl_sid (heap ex_live 0) = d_id (save_data (data (heap ex_live 0)) [])
   \<and> socketIndex ex_live ''abc'' = Some 7
   \<and> snd (Session_save ex_live 0 []) = Inr ex_rec
   \<and> wrapper_emit ex_live 0 [''ev''] = ex_live\<lparr>sockLog := (sockLog ex_live)(7 := [SEmit [''ev'']])\<rparr>
   \<and> socketIndex (fst (Session_save ex_live 0 [])) ''abc'' = None
   \<and> sockLog (wrapper_emit (fst (Session_save ex_live 0 [])) 0 [''ev'']) = sockLog ex_live
   \<and> emitQueue (heap (wrapper_emit (fst (Session_save ex_live 0 [])) 0 [''ev'']) 0) = Some [[''ev'']]"
proof -
  have d: "save_data (data (heap ex_live 0)) [] = ex_rec"
    by (simp add: save_data_def example_defs truthy_defs)
  have a: "truthy_str (d_id (save_data (data (heap ex_live 0)) []))"
    unfolding d by (simp add: ex_rec_def truthy_str_def)
  have b: "cl_sid (heap ex_live 0) = d_id ex_rec" "socketIndex ex_live ''abc'' = Some 7"
    "key_of (d_id ex_rec) = ''abc''" "sockLog ex_live 7 = []" "emitQueue (heap ex_live 0) = None"
    by (simp_all add: example_defs key_of_def)
  have c: "snd (Session_save ex_live 0 []) = Inr ex_rec"
    by (simp add: Session_save_def save_data_def save_sid_def Session_remove_def remove_target_def
        example_defs truthy_defs store_defs Let_def)
  note t = save_unbinds_socket [OF a, unfolded Let_def d b(3)]
  from t have s1: "socketIndex (fst (Session_save ex_live 0 [])) ''abc'' = None"
    by blast
  from t b(1,2) have s2:
    "wrapper_emit ex_live 0 [''ev'']
       = ex_live\<lparr>sockLog := (sockLog ex_live)(7 := sockLog ex_live 7 @ [SEmit [''ev'']])\<rparr>"
    by blast
  from t b(1) have s3:
    "sockLog (wrapper_emit (fst (Session_save ex_live 0 [])) 0 [''ev'']) = sockLog ex_live"
    by blast
  from t b(1) have s4:
    "wrapper_emit (fst (Session_save ex_live 0 [])) 0 [''ev'']
       = (fst (Session_save ex_live 0 []))\<lparr>heap := (heap (fst (Session_save ex_live 0 [])))
            (0 := (heap (fst (Session_save ex_live 0 [])) 0)
               \<lparr>emitQueue := Some (qlist (emitQueue (heap ex_live 0)) @ [[''ev'']])\<rparr>)\<rparr>"
    by blast
  show ?thesis
    unfolding d s4 using a [unfolded d] b c s1 s2 s3 [unfolded s4] by (simp add: qlist_def)
qed

end
